theory Spec2Isabelle
  imports Complex_Main "HOL-Library.Word" "HOL-Library.Stream"
begin

section \<open>trainer\_single.py: a GAN estimator template over TensorFlow\<close>

text \<open>
  The script is glue over TensorFlow 1.x: every line of it either calls the framework or
  passes one framework object to the next call. The embedding keeps that shape.
  \<^item> A framework object is a symbolic value of type \<open>val\<close>: the call that made it,
    applied to its arguments. An attribute read (\<open>gan_model.generated_data\<close>) is a
    constructor over the object it is read from.
  \<^item> A framework call is an effect. A function of the script runs against a framework
    \<open>fw\<close> that says, for each call, whether it raises and what; it threads the list of
    the calls issued so far (program order) and returns either the exception or its value.
  \<^item> Python's \<open>dict\<close> of parameters is an association list read with \<open>map_of\<close>.
\<close>

subsection \<open>Python values and exceptions\<close>

datatype pyval = PNone | PBool bool | PInt int | PFloat real | PStr string

text \<open>Python truthiness, as \<open>if params['use_tpu']:\<close> applies it.\<close>

fun truthy :: "pyval \<Rightarrow> bool" where
  "truthy PNone = False"
| "truthy (PBool b) = b"
| "truthy (PInt i) = (i \<noteq> 0)"
| "truthy (PFloat r) = (r \<noteq> 0)"
| "truthy (PStr s) = (s \<noteq> [])"

type_synonym params = "(string \<times> pyval) list"

text \<open>
  \<open>KeyError\<close> is what \<open>params[k]\<close> raises on a missing key and \<open>SystemExit\<close> what
  \<open>argparse\<close> raises when it prints its help or an error and exits; \<open>Other\<close> is any
  other exception, by class name and message.
\<close>

datatype exn = KeyError string | SystemExit | Other string string

subsection \<open>Framework objects\<close>

text \<open>The functions of the script that are handed to the framework as callbacks.\<close>

datatype fn_ref = Generator_fn | Discriminator_fn | Model_fn | Train_input_fn | Set_shapes pyval

text \<open>
  \<open>Call f args kwargs\<close> is the object returned by \<open>f(*args, **kwargs)\<close>, \<open>Method o m args
  kwargs\<close> the one returned by \<open>o.m(*args, **kwargs)\<close>, \<open>Attr o a\<close> the attribute \<open>o.a\<close>,
  \<open>Name n\<close> a constant of the framework, \<open>Tensor n\<close> a tensor the caller supplies and
  \<open>Loop_var k\<close> the \<open>k\<close>-th loop variable inside a traced loop.
\<close>

datatype val =
    Tensor string
  | Lit pyval
  | Dict params
  | Fn fn_ref
  | Name string
  | Loop_var nat
  | Attr val string
  | Tuple "val list"
  | Call string "val list" "(string \<times> val) list"
  | Method val string "val list" "(string \<times> val) list"

text \<open>The function or method a call names.\<close>

fun callee :: "val \<Rightarrow> string" where
  "callee (Call f args kw) = f"
| "callee (Method ob m args kw) = m"
| "callee v = []"

subsection \<open>Running the script against a framework\<close>

type_synonym framework = "val \<Rightarrow> exn option"

type_synonym 'a run = "val list \<Rightarrow> (exn + 'a) \<times> val list"

definition ret :: "'a \<Rightarrow> 'a run" where
  "ret a = (\<lambda>log. (Inr a, log))"

definition throw :: "exn \<Rightarrow> 'a run" where
  "throw e = (\<lambda>log. (Inl e, log))"

text \<open>Sequencing: an exception of the first part skips the rest; there is no handler.\<close>

definition bnd :: "'a run \<Rightarrow> ('a \<Rightarrow> 'b run) \<Rightarrow> 'b run" where
  "bnd m f = (\<lambda>log. case m log of (Inl e, log') \<Rightarrow> (Inl e, log') | (Inr a, log') \<Rightarrow> f a log')"

text \<open>A framework call: it is recorded, and either raises or yields the object it makes.\<close>

definition call :: "framework \<Rightarrow> val \<Rightarrow> val run" where
  "call fw c = (\<lambda>log. (case fw c of Some e \<Rightarrow> Inl e | None \<Rightarrow> Inr c, log @ [c]))"

text \<open>
  Straight-line code: the calls \<open>cs\<close> issued in order, then the value \<open>a\<close>; the first
  call that raises ends it. The theorems below use it to say what a function of the
  script does as a whole.
\<close>

fun straight :: "framework \<Rightarrow> val list \<Rightarrow> 'a \<Rightarrow> 'a run" where
  "straight fw [] a = ret a"
| "straight fw (c # cs) a = bnd (call fw c) (\<lambda>_. straight fw cs a)"

text \<open>\<open>params[k]\<close>: the value, or \<open>KeyError\<close>.\<close>

definition subscript :: "params \<Rightarrow> string \<Rightarrow> pyval run" where
  "subscript params k = (case map_of params k of None \<Rightarrow> throw (KeyError k) | Some v \<Rightarrow> ret v)"

text \<open>\<open>params.get(k, d)\<close>.\<close>

definition get_default :: "params \<Rightarrow> string \<Rightarrow> pyval \<Rightarrow> pyval" where
  "get_default params k d = (case map_of params k of None \<Rightarrow> d | Some v \<Rightarrow> v)"

text \<open>The framework under which no call raises.\<close>

definition fw_ok :: framework where
  "fw_ok = (\<lambda>c. None)"

subsection \<open>The two networks (lines 20--30)\<close>

definition INPUT_DIM :: int where
  "INPUT_DIM = 5"

definition OUTPUT_DIM :: int where
  "OUTPUT_DIM = 3"

definition generator_fn :: "framework \<Rightarrow> val \<Rightarrow> val run" where
  "generator_fn fw generator_inputs =
     bnd (call fw (Call ''tf.layers.dense'' [generator_inputs, Lit (PInt OUTPUT_DIM)] []))
       (\<lambda>outputs. ret outputs)"

definition discriminator_fn :: "framework \<Rightarrow> val \<Rightarrow> val \<Rightarrow> val run" where
  "discriminator_fn fw data generator_inputs =
     bnd (call fw (Call ''tf.layers.dense'' [data, Lit (PInt 1)] []))
       (\<lambda>outputs. ret outputs)"

subsection \<open>The model function (lines 33--93)\<close>

text \<open>The value of \<open>tf.estimator.ModeKeys.TRAIN\<close>.\<close>

definition TRAIN :: pyval where
  "TRAIN = PStr ''train''"

text \<open>
  The loop's condition and body, lines 66--68. TensorFlow calls each once with the loop
  variables \<open>i\<close> and \<open>x\<close> as symbolic tensors and keeps the graphs they return.
\<close>

definition cond :: "val \<Rightarrow> val \<Rightarrow> val" where
  "cond i x = Call ''tf.less'' [i, Lit (PInt 100)] []"

definition body :: "val \<Rightarrow> val \<Rightarrow> val \<Rightarrow> val" where
  "body gan_train_ops i x =
     Tuple [Call ''tf.add'' [i, Lit (PInt 1)] [], Attr gan_train_ops ''discriminator_train_op'']"

text \<open>Lines 47--77: the branch taken when \<open>mode\<close> is \<open>TRAIN\<close>; it yields \<open>(loss, train_op)\<close>.\<close>

definition train_branch :: "framework \<Rightarrow> params \<Rightarrow> val \<Rightarrow> val \<Rightarrow> (val \<times> val) run" where
  "train_branch fw params global_step gan_model =
     bnd (call fw (Call ''tf.contrib.gan.gan_loss'' [gan_model]
                     [(''add_summaries'', Lit (PBool False))])) (\<lambda>gan_loss.
     let loss = Attr gan_loss ''generator_loss'' in
     bnd (call fw (Call ''tf.train.RMSPropOptimizer'' []
                     [(''learning_rate'', Lit (PFloat (5 / 100)))])) (\<lambda>gen_optimizer.
     bnd (call fw (Call ''tf.train.RMSPropOptimizer'' []
                     [(''learning_rate'', Lit (PFloat (5 / 100)))])) (\<lambda>dis_optimizer.
     bnd (subscript params ''use_tpu'') (\<lambda>use_tpu.
     bnd (if truthy use_tpu
          then bnd (call fw (Call ''tf.contrib.tpu.CrossShardOptimizer'' [gen_optimizer] [])) (\<lambda>g.
               bnd (call fw (Call ''tf.contrib.tpu.CrossShardOptimizer'' [dis_optimizer] [])) (\<lambda>d.
               ret (g, d)))
          else ret (gen_optimizer, dis_optimizer)) (\<lambda>(gen_optimizer, dis_optimizer).
     bnd (call fw (Call ''tf.contrib.gan.gan_train_ops''
                     [gan_model, gan_loss, gen_optimizer, dis_optimizer] [])) (\<lambda>gan_train_ops.
     bnd (subscript params ''use_tpu'') (\<lambda>use_tpu.
     let while_loop = (if truthy use_tpu then ''tf.contrib.tpu.while_loop'' else ''tf.while_loop'') in
     bnd (call fw (Call ''tf.constant'' [Lit (PInt 0)] [])) (\<lambda>c0.
     bnd (call fw (Call ''tf.constant'' [Lit (PFloat 0)] [])) (\<lambda>c1.
     let inputs = Tuple [c0, c1] in
     bnd (call fw (Call while_loop
                     [cond (Loop_var 0) (Loop_var 1), body gan_train_ops (Loop_var 0) (Loop_var 1),
                      inputs] [])) (\<lambda>dis_train_op.
     bnd (call fw (Method global_step ''assign_add'' [Lit (PInt 1)] [])) (\<lambda>step_op.
     bnd (call fw (Call ''tf.group''
                     [dis_train_op, Attr gan_train_ops ''generator_train_op'', step_op] [])) (\<lambda>train_op.
     ret (loss, train_op)))))))))))))"

definition model_fn :: "framework \<Rightarrow> val \<Rightarrow> val \<Rightarrow> pyval \<Rightarrow> params \<Rightarrow> val run" where
  "model_fn fw features labels mode params =
     bnd (call fw (Call ''tf.train.get_global_step'' [] [])) (\<lambda>global_step.
     let generator_inputs = features; real_data = labels in
     bnd (call fw (Call ''tf.contrib.gan.gan_model''
                     [Fn Generator_fn, Fn Discriminator_fn, real_data, generator_inputs] [])) (\<lambda>gan_model.
     let predictions = Attr gan_model ''generated_data'' in
     bnd (if mode = TRAIN then train_branch fw params global_step gan_model
          else ret (Lit PNone, Lit PNone)) (\<lambda>(loss, train_op).
     bnd (subscript params ''use_tpu'') (\<lambda>use_tpu.
     if truthy use_tpu
     then call fw (Call ''tf.contrib.tpu.TPUEstimatorSpec'' []
                     [(''mode'', Lit mode), (''predictions'', predictions),
                      (''loss'', loss), (''train_op'', train_op)])
     else call fw (Call ''tf.estimator.EstimatorSpec'' []
                     [(''mode'', Lit mode), (''predictions'', predictions),
                      (''loss'', loss), (''train_op'', train_op)])))))"

subsection \<open>The input function (lines 96--123)\<close>

text \<open>
  The closure \<open>set_shapes\<close> (lines 111--118) is handed to \<open>dataset.map\<close> as
  \<open>Fn (Set_shapes batch_size)\<close>; what it does to the static shapes is \<open>set_shapes\<close> below.
\<close>

definition train_input_fn :: "framework \<Rightarrow> params \<Rightarrow> val run" where
  "train_input_fn fw params =
     (let data_size = 100 in
      bnd (call fw (Call ''tf.random_normal''
                      [Tuple [Lit (PInt data_size), Lit (PInt INPUT_DIM)]] [])) (\<lambda>noise_tensor.
      bnd (call fw (Call ''tf.random_uniform''
                      [Tuple [Lit (PInt data_size), Lit (PInt OUTPUT_DIM)]] [])) (\<lambda>real_data_tensor.
      bnd (call fw (Call ''tf.data.Dataset.from_tensor_slices''
                      [Tuple [noise_tensor, real_data_tensor]] [])) (\<lambda>dataset.
      bnd (call fw (Method dataset ''repeat'' [] [])) (\<lambda>dataset.
      bnd (call fw (Method dataset ''shuffle'' [Lit (PInt 10)] [])) (\<lambda>dataset.
      let batch_size = get_default params ''train_batch_size'' (PInt 16) in
      bnd (call fw (Method dataset ''batch'' [Lit batch_size]
                      [(''drop_remainder'', Lit (PBool True))])) (\<lambda>dataset.
      bnd (call fw (Method dataset ''map'' [Fn (Set_shapes batch_size)] [])) (\<lambda>dataset.
      bnd (call fw (Method dataset ''prefetch'' [Name ''tf.contrib.data.AUTOTUNE''] [])) (\<lambda>dataset.
      ret dataset)))))))))"

subsection \<open>The main routine (lines 126--171)\<close>

text \<open>
  \<open>args\<close> is an \<open>argparse.Namespace\<close>: its attributes by name. \<open>vars(args)\<close> is the
  dictionary of those attributes, so the namespace is kept as that dictionary.
\<close>

type_synonym namespace = "(string \<times> pyval) list"

definition vars :: "namespace \<Rightarrow> params" where
  "vars args = args"

text \<open>\<open>args.a\<close>: the attribute, or \<open>AttributeError\<close>.\<close>

definition getattr :: "namespace \<Rightarrow> string \<Rightarrow> pyval run" where
  "getattr args a =
     (case map_of args a of None \<Rightarrow> throw (Other ''AttributeError'' a) | Some v \<Rightarrow> ret v)"

definition main :: "framework \<Rightarrow> namespace \<Rightarrow> unit run" where
  "main fw args =
     (let params = vars args in
      bnd (getattr args ''use_tpu'') (\<lambda>use_tpu.
      bnd (if truthy use_tpu
           then
             bnd (getattr args ''tpu'') (\<lambda>tpu.
             bnd (call fw (Call ''tf.contrib.cluster_resolver.TPUClusterResolver'' [Lit tpu] []))
               (\<lambda>tpu_cluster_resolver.
             bnd (getattr args ''save_checkpoints_steps'') (\<lambda>save_checkpoints_steps.
             bnd (call fw (Call ''tf.contrib.tpu.TPUConfig'' []
                             [(''num_shards'', Lit (PInt 8)),
                              (''iterations_per_loop'', Lit save_checkpoints_steps)])) (\<lambda>tpu_config.
             bnd (getattr args ''model_dir'') (\<lambda>model_dir.
             bnd (getattr args ''save_checkpoints_steps'') (\<lambda>save_checkpoints_steps.
             bnd (call fw (Call ''tf.contrib.tpu.RunConfig'' []
                             [(''cluster'', tpu_cluster_resolver),
                              (''model_dir'', Lit model_dir),
                              (''tpu_config'', tpu_config),
                              (''save_checkpoints_steps'', Lit save_checkpoints_steps),
                              (''save_summary_steps'', Lit (PInt 10))])) (\<lambda>config.
             bnd (getattr args ''train_batch_size'') (\<lambda>train_batch_size.
             call fw (Call ''tf.contrib.tpu.TPUEstimator'' []
                        [(''model_fn'', Fn Model_fn),
                         (''config'', config),
                         (''params'', Dict params),
                         (''train_batch_size'', Lit train_batch_size),
                         (''eval_batch_size'', Lit (PInt 32)),
                         (''export_to_tpu'', Lit (PBool False))])))))))))
           else
             bnd (getattr args ''model_dir'') (\<lambda>model_dir.
             bnd (call fw (Call ''tf.estimator.RunConfig'' []
                             [(''model_dir'', Lit model_dir),
                              (''save_checkpoints_steps'', Lit (PInt 10)),
                              (''save_summary_steps'', Lit (PInt 10))])) (\<lambda>config.
             call fw (Call ''tf.estimator.Estimator'' [Fn Model_fn]
                        [(''config'', config), (''params'', Dict params)])))) (\<lambda>estimator.
      bnd (call fw (Method estimator ''train'' [Fn Train_input_fn] [(''steps'', Lit (PInt 100))]))
        (\<lambda>_. ret ()))))"

subsection \<open>The script (lines 174--228)\<close>

text \<open>
  \<open>argparse\<close>, as far as the script uses it: long options that store one value or a
  constant, the \<open>-h\<close>/\<open>--help\<close> option every \<open>ArgumentParser()\<close> has, unique prefixes
  of long options, \<open>--flag=value\<close>, and \<open>parse_known_args\<close>, which collects what it does
  not recognise instead of rejecting it. \<open>type=int\<close> is the conversion \<open>pyint\<close> (Python's
  \<open>int\<close> on a string, \<open>None\<close> where it raises \<open>ValueError\<close>), a parameter here.
  The module is not part of the repository: the definitions follow its behaviour in
  CPython up to 3.11, on strings of characters below 256. Printing the help and
  reporting an error both end the run with \<open>SystemExit\<close>.
\<close>

datatype action = Store "string \<Rightarrow> pyval option" | Store_true | Help_action

datatype opt = Opt (strings: "string list") (dest: string) (action: action) (dflt: "pyval option")

definition ArgumentParser :: "opt list" where
  "ArgumentParser = [Opt [''-h'', ''--help''] ''help'' Help_action None]"

text \<open>The attribute an option is stored under: the flag without its dashes, \<open>-\<close> as \<open>_\<close>.\<close>

definition dest_of :: "string \<Rightarrow> string" where
  "dest_of flag =
     map (\<lambda>c. if c = CHR ''-'' then CHR ''_'' else c) (dropWhile (\<lambda>c. c = CHR ''-'') flag)"

definition add_argument :: "opt list \<Rightarrow> string \<Rightarrow> action \<Rightarrow> pyval \<Rightarrow> opt list" where
  "add_argument parser flag act d = parser @ [Opt [flag] (dest_of flag) act (Some d)]"

text \<open>Lines 175--199: the parser the script builds.\<close>

definition parser :: "(string \<Rightarrow> int option) \<Rightarrow> opt list" where
  "parser pyint =
     (let p = ArgumentParser;
          p = add_argument p ''--model-dir'' (Store (\<lambda>s. Some (PStr s))) (PStr ''/tmp/tpu-template'');
          p = add_argument p ''--train-batch-size'' (Store (\<lambda>s. map_option PInt (pyint s))) (PInt 16);
          p = add_argument p ''--save-checkpoints-steps'' (Store (\<lambda>s. map_option PInt (pyint s))) (PInt 10);
          p = add_argument p ''--use-tpu'' Store_true (PBool False);
          p = add_argument p ''--tpu'' (Store (\<lambda>s. Some (PStr s))) PNone
      in p)"

text \<open>How \<open>argparse\<close> reads one command-line token.\<close>

datatype tok = Positional | Marker | Known opt "string option" | Unknown | Ambiguous

definition find_opt :: "opt list \<Rightarrow> string \<Rightarrow> opt option" where
  "find_opt p s = find (\<lambda>ob. s \<in> set (strings ob)) p"

definition starts_with :: "string \<Rightarrow> string \<Rightarrow> bool" where
  "starts_with s pre = (take (length pre) s = pre)"

definition before_eq :: "string \<Rightarrow> string" where
  "before_eq t = takeWhile (\<lambda>c. c \<noteq> CHR ''='') t"

definition after_eq :: "string \<Rightarrow> string" where
  "after_eq t = drop 1 (dropWhile (\<lambda>c. c \<noteq> CHR ''='') t)"

text \<open>The options a token abbreviates, each with the value the token carries for it.\<close>

definition option_tuples :: "opt list \<Rightarrow> string \<Rightarrow> (opt \<times> string option) list" where
  "option_tuples p t =
     (if starts_with t ''--'' then
        (let pre = (if CHR ''='' \<in> set t then before_eq t else t);
             ex = (if CHR ''='' \<in> set t then Some (after_eq t) else None)
         in concat (map (\<lambda>ob. concat (map (\<lambda>s. if starts_with s pre then [(ob, ex)] else [])
                                            (strings ob))) p))
      else
        concat (map (\<lambda>ob. concat (map (\<lambda>s. if s = take 2 t then [(ob, Some (drop 2 t))]
                                            else if starts_with s t then [(ob, None)] else [])
                                     (strings ob))) p))"

definition digit :: "char \<Rightarrow> bool" where
  "digit c = (c \<in> set ''0123456789'')"

text \<open>
  A token such as \<open>-5\<close> or \<open>-.5\<close>: an argument, not an option. It is a dash and
  digits, or a dash, digits if any, a dot and digits; the pattern \<open>argparse\<close> matches it
  with overlooks one final line feed.
\<close>

definition negative_number :: "string \<Rightarrow> bool" where
  "negative_number t0 =
     (let t = (if t0 \<noteq> [] \<and> last t0 = CHR 0x0A then butlast t0 else t0) in
      case t of
        [] \<Rightarrow> False
      | c # r \<Rightarrow> c = CHR ''-'' \<and>
          (let a = takeWhile digit r; b = dropWhile digit r in
           (b = [] \<and> a \<noteq> []) \<or>
           (case b of [] \<Rightarrow> False | d # f \<Rightarrow> d = CHR ''.'' \<and> f \<noteq> [] \<and> list_all digit f)))"

definition parse_optional :: "opt list \<Rightarrow> string \<Rightarrow> tok" where
  "parse_optional p t =
     (if t = [] then Positional
      else if hd t \<noteq> CHR ''-'' then Positional
      else (case find_opt p t of
        Some ob \<Rightarrow> Known ob None
      | None \<Rightarrow>
          (if length t = 1 then Positional
           else (case (if CHR ''='' \<in> set t then find_opt p (before_eq t) else None) of
             Some ob \<Rightarrow> Known ob (Some (after_eq t))
           | None \<Rightarrow>
               (case option_tuples p t of
                  [] \<Rightarrow> (if negative_number t then Positional
                         else if CHR '' '' \<in> set t then Positional
                         else Unknown)
                | [(ob, ex)] \<Rightarrow> Known ob ex
                | _ \<Rightarrow> Ambiguous)))))"

text \<open>Everything after a first \<open>--\<close> is an argument.\<close>

fun classify :: "opt list \<Rightarrow> string list \<Rightarrow> (string \<times> tok) list" where
  "classify p [] = []"
| "classify p (t # ts) =
     (if t = ''--'' then (t, Marker) # map (\<lambda>u. (u, Positional)) ts
      else (t, parse_optional p t) # classify p ts)"

text \<open>\<open>setattr(args, a, v)\<close>.\<close>

fun setattr :: "namespace \<Rightarrow> string \<Rightarrow> pyval \<Rightarrow> namespace" where
  "setattr [] a v = [(a, v)]"
| "setattr ((b, w) # ns) a v = (if b = a then (a, v) # ns else (b, w) # setattr ns a v)"

definition defaults :: "opt list \<Rightarrow> namespace" where
  "defaults p = concat (map (\<lambda>ob. case dflt ob of None \<Rightarrow> [] | Some d \<Rightarrow> [(dest ob, d)]) p)"

text \<open>
  The tokens are consumed from left to right. \<open>pending\<close> is the storing option that still
  waits for its value, which only an argument can be: not an option, and not the \<open>--\<close>
  marker either. A token nothing consumes goes to the extras.
\<close>

fun consume :: "namespace \<Rightarrow> string list \<Rightarrow> opt option \<Rightarrow> (string \<times> tok) list
    \<Rightarrow> exn + namespace \<times> string list" where
  "consume ns extras None [] = Inr (ns, extras)"
| "consume ns extras (Some ob) [] = Inl SystemExit"
| "consume ns extras (Some ob) ((t, c) # rest) =
     (case c of
        Positional \<Rightarrow>
          (case action ob of
             Store conv \<Rightarrow>
               (case conv t of
                  None \<Rightarrow> Inl SystemExit
                | Some v \<Rightarrow> consume (setattr ns (dest ob) v) extras None rest)
           | _ \<Rightarrow> Inl SystemExit)
      | _ \<Rightarrow> Inl SystemExit)"
| "consume ns extras None ((t, c) # rest) =
     (case c of
        Known ob ex \<Rightarrow>
          (case action ob of
             Help_action \<Rightarrow> Inl SystemExit
           | Store_true \<Rightarrow>
               (case ex of
                  Some e \<Rightarrow> Inl SystemExit
                | None \<Rightarrow> consume (setattr ns (dest ob) (PBool True)) extras None rest)
           | Store conv \<Rightarrow>
               (case ex of
                  Some e \<Rightarrow>
                    (case conv e of
                       None \<Rightarrow> Inl SystemExit
                     | Some v \<Rightarrow> consume (setattr ns (dest ob) v) extras None rest)
                | None \<Rightarrow> consume ns extras (Some ob) rest))
      | Ambiguous \<Rightarrow> Inl SystemExit
      | _ \<Rightarrow> consume ns (extras @ [t]) None rest)"

definition parse_known_args :: "opt list \<Rightarrow> string list \<Rightarrow> exn + namespace \<times> string list" where
  "parse_known_args p argv =
     (let toks = classify p argv in
      if list_ex (\<lambda>(t, c). c = Ambiguous) toks then Inl SystemExit
      else consume (defaults p) [] None toks)"

text \<open>
  \<open>with mgr as v: body\<close>. The manager's \<open>__exit__\<close> runs whether the body raised or not;
  that of \<open>tf.Session\<close> returns nothing, so an exception of the body is raised again after it.
\<close>

definition with_stmt :: "framework \<Rightarrow> val \<Rightarrow> (val \<Rightarrow> 'a run) \<Rightarrow> 'a run" where
  "with_stmt fw mgr block =
     bnd (call fw (Method mgr ''__enter__'' [] [])) (\<lambda>v tr.
       case block v tr of
         (Inl e, tr') \<Rightarrow>
           (case call fw (Method mgr ''__exit__'' [] []) tr' of
              (Inl e', tr'') \<Rightarrow> (Inl e', tr'')
            | (Inr u, tr'') \<Rightarrow> (Inl e, tr''))
       | (Inr a, tr') \<Rightarrow>
           (case call fw (Method mgr ''__exit__'' [] []) tr' of
              (Inl e', tr'') \<Rightarrow> (Inl e', tr'')
            | (Inr u, tr'') \<Rightarrow> (Inr a, tr'')))"

text \<open>
  Lines 203--226, the notebook case: \<open>modules\<close> are the names in \<open>sys.modules\<close> and
  \<open>environ\<close> is \<open>os.environ\<close>.
\<close>

definition colab :: "framework \<Rightarrow> (string \<times> string) list \<Rightarrow> namespace \<Rightarrow> namespace run" where
  "colab fw environ args =
     bnd (call fw (Call ''google.colab.auth.authenticate_user'' [] [])) (\<lambda>_.
     let args = setattr args ''model_dir'' (PStr ''gs://your-gcs-bucket'') in
     case map_of environ ''COLAB_TPU_ADDR'' of
       None \<Rightarrow> ret args
     | Some addr \<Rightarrow>
         (let tpu_grpc = ''grpc://'' @ addr;
              args = setattr args ''tpu'' (PStr tpu_grpc);
              args = setattr args ''use_tpu'' (PBool True) in
          bnd (call fw (Call ''tf.Session'' [Lit (PStr tpu_grpc)] [])) (\<lambda>mgr.
          bnd (with_stmt fw mgr (\<lambda>sess.
                 bnd (call fw (Call ''open'' [Lit (PStr ''/content/adc.json'')] [])) (\<lambda>f.
                 bnd (call fw (Call ''json.load'' [f] [])) (\<lambda>data.
                 call fw (Call ''tf.contrib.cloud.configure_gcs'' [sess]
                            [(''credentials'', data)]))))) (\<lambda>_.
          ret args))))"

text \<open>Lines 175--226: what the script does before it calls \<open>main\<close>.\<close>

definition prepare :: "framework \<Rightarrow> (string \<Rightarrow> int option) \<Rightarrow> string list \<Rightarrow> string list
    \<Rightarrow> (string \<times> string) list \<Rightarrow> namespace run" where
  "prepare fw pyint argv modules environ =
     (case parse_known_args (parser pyint) argv of
        Inl e \<Rightarrow> throw e
      | Inr (args, extras) \<Rightarrow>
          if ''google.colab'' \<in> set modules then colab fw environ args else ret args)"

definition script :: "framework \<Rightarrow> (string \<Rightarrow> int option) \<Rightarrow> string list \<Rightarrow> string list
    \<Rightarrow> (string \<times> string) list \<Rightarrow> unit run" where
  "script fw pyint argv modules environ =
     bnd (prepare fw pyint argv modules environ) (\<lambda>args. main fw args)"

subsection \<open>What the framework does with the graphs\<close>

text \<open>
  The script only builds graphs; three of its claims are about what TensorFlow then does
  with them. The definitions below give the documented behaviour of the constructs those
  claims name, on the graphs the script builds: the loop of \<open>tf.while_loop\<close>, the static
  shape of a dataset's elements, and the batches a dataset yields.
\<close>

paragraph \<open>The loop\<close>

text \<open>Run-time values: \<open>tf.constant(0)\<close> is an \<open>int32\<close>; an operation runs to a result.\<close>

datatype rt = RInt "32 word" | RFloat real | RBool bool | ROp val

fun eval :: "rt list \<Rightarrow> val \<Rightarrow> rt option" where
  "eval env (Lit (PInt n)) = Some (RInt (word_of_int n))"
| "eval env (Lit (PFloat r)) = Some (RFloat r)"
| "eval env (Loop_var k) = (if k < length env then Some (env ! k) else None)"
| "eval env (Call f [a] []) =
     (if f = ''tf.constant'' then eval env a else Some (ROp (Call f [a] [])))"
| "eval env (Call f [a, b] []) =
     (if f = ''tf.less'' then
        (case (eval env a, eval env b) of
           (Some (RInt x), Some (RInt y)) \<Rightarrow> Some (RBool (x <s y))
         | _ \<Rightarrow> None)
      else if f = ''tf.add'' then
        (case (eval env a, eval env b) of
           (Some (RInt x), Some (RInt y)) \<Rightarrow> Some (RInt (x + y))
         | _ \<Rightarrow> None)
      else Some (ROp (Call f [a, b] [])))"
| "eval env v = Some (ROp v)"

datatype step = Stop | Continue "rt list" | Stuck

text \<open>One test of the condition and, where it holds, one run of the body.\<close>

definition loop_step :: "val \<Rightarrow> val \<Rightarrow> rt list \<Rightarrow> step" where
  "loop_step c b env =
     (case eval env c of
        Some (RBool True) \<Rightarrow>
          (case b of
             Tuple outs \<Rightarrow>
               (if list_all (\<lambda>v. eval env v \<noteq> None) outs
                then Continue (map (\<lambda>v. the (eval env v)) outs) else Stuck)
           | _ \<Rightarrow> Stuck)
      | Some (RBool False) \<Rightarrow> Stop
      | _ \<Rightarrow> Stuck)"

text \<open>
  The loop: the number of times the body has run and the loop variables. No result
  (\<open>None\<close>) where the loop never ends or an operand is not a value of the right kind.
\<close>

partial_function (option) run_while :: "val \<Rightarrow> val \<Rightarrow> nat \<Rightarrow> rt list \<Rightarrow> (nat \<times> rt list) option" where
  "run_while c b n env =
     (case loop_step c b env of
        Stop \<Rightarrow> Some (n, env)
      | Continue env' \<Rightarrow> run_while c b (Suc n) env'
      | Stuck \<Rightarrow> None)"

text \<open>Running the operation \<open>while_loop(cond, body, inputs)\<close>.\<close>

definition run_loop :: "val \<Rightarrow> (nat \<times> rt list) option" where
  "run_loop v =
     (case v of
        Call f [c, b, Tuple inputs] [] \<Rightarrow>
          (if (f = ''tf.while_loop'' \<or> f = ''tf.contrib.tpu.while_loop'')
              \<and> list_all (\<lambda>v. eval [] v \<noteq> None) inputs
           then run_while c b 0 (map (\<lambda>v. the (eval [] v)) inputs) else None)
      | _ \<Rightarrow> None)"

paragraph \<open>Static shapes\<close>

text \<open>A shape: one entry per dimension, \<open>None\<close> where the size is not known statically.\<close>

type_synonym shape = "int option list"

fun merge_dim :: "int option \<Rightarrow> int option \<Rightarrow> int option option" where
  "merge_dim None d = Some d"
| "merge_dim (Some a) None = Some (Some a)"
| "merge_dim (Some a) (Some b) = (if a = b then Some (Some a) else None)"

text \<open>\<open>TensorShape.merge_with\<close>: the combined shape, or \<open>ValueError\<close> where the two disagree.\<close>

definition merge_with :: "shape \<Rightarrow> shape \<Rightarrow> exn + shape" where
  "merge_with s t =
     (if length s = length t \<and> list_all (\<lambda>(a, b). merge_dim a b \<noteq> None) (zip s t)
      then Inr (map (\<lambda>(a, b). the (merge_dim a b)) (zip s t))
      else Inl (Other ''ValueError'' ''shapes are not compatible''))"

text \<open>
  Lines 111--118, on the shapes of the two tensors, for an integer \<open>batch_size\<close>
  (a negative dimension is a \<open>ValueError\<close>). \<open>Tensor.set_shape\<close> merges the shape it is
  given into the tensor's.
\<close>

definition set_shapes :: "int \<Rightarrow> shape \<times> shape \<Rightarrow> exn + shape \<times> shape" where
  "set_shapes batch_size fl =
     (case fl of (features, labels) \<Rightarrow>
        if batch_size < 0 then Inl (Other ''ValueError'' ''negative dimension'')
        else
          (case merge_with features [Some batch_size, None] of
             Inl e \<Rightarrow> Inl e
           | Inr features_shape \<Rightarrow>
               (case merge_with labels [Some batch_size, None] of
                  Inl e \<Rightarrow> Inl e
                | Inr labels_shape \<Rightarrow>
                    (case merge_with features features_shape of
                       Inl e \<Rightarrow> Inl e
                     | Inr f' \<Rightarrow>
                         (case merge_with labels labels_shape of
                            Inl e \<Rightarrow> Inl e
                          | Inr l' \<Rightarrow> Inr (f', l'))))))"

text \<open>The shape of \<open>tf.random_normal(shape)\<close> and \<open>tf.random_uniform(shape)\<close>.\<close>

definition int_lit :: "val \<Rightarrow> bool" where
  "int_lit v = (case v of Lit (PInt n) \<Rightarrow> 0 \<le> n | _ \<Rightarrow> False)"

definition lit_int :: "val \<Rightarrow> int" where
  "lit_int v = (case v of Lit (PInt n) \<Rightarrow> n | _ \<Rightarrow> 0)"

definition tensor_shape :: "val \<Rightarrow> int list option" where
  "tensor_shape v =
     (case v of
        Call f [Tuple dims] [] \<Rightarrow>
          (if (f = ''tf.random_normal'' \<or> f = ''tf.random_uniform'') \<and> list_all int_lit dims
           then Some (map lit_int dims) else None)
      | _ \<Rightarrow> None)"

text \<open>
  The static shapes of the (features, labels) elements of a dataset. Versions of
  TensorFlow differ in whether \<open>batch(n, drop_remainder=True)\<close> already knows the batch
  dimension statically; \<open>known\<close> says which. \<open>None\<close> where the graph is not one of these
  or the mapped function raises.
\<close>

fun static_shapes :: "bool \<Rightarrow> val \<Rightarrow> (shape \<times> shape) option" where
  "static_shapes known (Call f [Tuple [a, b]] []) =
     (if f = ''tf.data.Dataset.from_tensor_slices'' then
        (case (tensor_shape a, tensor_shape b) of
           (Some (m # as), Some (n # bs)) \<Rightarrow> Some (map Some as, map Some bs)
         | _ \<Rightarrow> None)
      else None)"
| "static_shapes known (Method d m args kw) =
     (if m = ''repeat'' \<or> m = ''shuffle'' \<or> m = ''prefetch'' then static_shapes known d
      else if m = ''batch'' then
        (case (args, static_shapes known d) of
           ([Lit (PInt n)], Some (f, l)) \<Rightarrow>
             (let bdim = (if known \<and> map_of kw ''drop_remainder'' = Some (Lit (PBool True))
                          then Some n else None)
              in Some (bdim # f, bdim # l))
         | _ \<Rightarrow> None)
      else if m = ''map'' then
        (case (args, static_shapes known d) of
           ([Fn (Set_shapes (PInt n))], Some fl) \<Rightarrow>
             (case set_shapes n fl of Inl e \<Rightarrow> None | Inr fl' \<Rightarrow> Some fl')
         | _ \<Rightarrow> None)
      else None)"
| "static_shapes known v = None"

paragraph \<open>The batches a dataset yields\<close>

text \<open>A dataset yields finitely many elements or goes on for ever.\<close>

datatype 'a seq = Finite_seq "'a list" | Infinite_seq "'a stream"

text \<open>
  \<open>shuffle(k)\<close> on an endless dataset: a buffer of \<open>k\<close> elements; each step yields the
  element an index drawn at random (\<open>rnd\<close>) picks and refills its place.
\<close>

primcorec shuffle_stream :: "nat stream \<Rightarrow> 'a list \<Rightarrow> 'a stream \<Rightarrow> 'a stream" where
  "shd (shuffle_stream rnd buf s) = buf ! (shd rnd mod length buf)"
| "stl (shuffle_stream rnd buf s) =
     shuffle_stream (stl rnd) (buf[shd rnd mod length buf := shd s]) (stl s)"

primcorec chunks :: "nat \<Rightarrow> 'a stream \<Rightarrow> 'a list stream" where
  "shd (chunks n s) = stake n s"
| "stl (chunks n s) = chunks n (sdrop n s)"

text \<open>\<open>batch(n, drop_remainder)\<close> on a dataset that ends.\<close>

fun chunk_list :: "nat \<Rightarrow> nat \<Rightarrow> bool \<Rightarrow> 'a list \<Rightarrow> 'a list list" where
  "chunk_list 0 n drop_remainder xs = []"
| "chunk_list (Suc fuel) n drop_remainder xs =
     (if xs = [] then []
      else if length xs < n then (if drop_remainder then [] else [xs])
      else take n xs # chunk_list fuel n drop_remainder (drop n xs))"

text \<open>
  The rows (by index into the sliced tensors) an unbatched dataset yields, in order.
  \<open>None\<close> where the framework raises or the graph is not one of these.
\<close>

fun rows :: "nat stream \<Rightarrow> val \<Rightarrow> nat seq option" where
  "rows rnd (Call f [Tuple [a, b]] []) =
     (if f = ''tf.data.Dataset.from_tensor_slices'' then
        (case (tensor_shape a, tensor_shape b) of
           (Some (m # as), Some (n # bs)) \<Rightarrow>
             (if m = n then Some (Finite_seq [0..<nat m]) else None)
         | _ \<Rightarrow> None)
      else None)"
| "rows rnd (Method d m args kw) =
     (if m = ''repeat'' \<and> args = [] then
        (case rows rnd d of
           Some (Finite_seq xs) \<Rightarrow>
             Some (if xs = [] then Finite_seq [] else Infinite_seq (cycle xs))
         | r \<Rightarrow> r)
      else if m = ''shuffle'' then
        (case (args, rows rnd d) of
           ([Lit (PInt k)], Some (Infinite_seq s)) \<Rightarrow>
             (if 0 < k then Some (Infinite_seq (shuffle_stream rnd (stake (nat k) s) (sdrop (nat k) s)))
              else None)
         | _ \<Rightarrow> None)
      else None)"
| "rows rnd v = None"

text \<open>The batches a batched dataset yields: \<open>map\<close> and \<open>prefetch\<close> keep them as they are.\<close>

fun batches :: "nat stream \<Rightarrow> val \<Rightarrow> nat list seq option" where
  "batches rnd (Method d m args kw) =
     (if m = ''map'' \<or> m = ''prefetch'' then batches rnd d
      else if m = ''batch'' then
        (case (args, rows rnd d) of
           ([Lit (PInt n)], Some r) \<Rightarrow>
             (if 0 < n then
                (case r of
                   Infinite_seq s \<Rightarrow> Some (Infinite_seq (chunks (nat n) s))
                 | Finite_seq xs \<Rightarrow>
                     Some (Finite_seq (chunk_list (length xs) (nat n)
                             (map_of kw ''drop_remainder'' = Some (Lit (PBool True))) xs)))
              else None)
         | _ \<Rightarrow> None)
      else None)"
| "batches rnd v = None"

subsection \<open>What it means that an exception propagates\<close>

text \<open>
  The exceptions Python itself raises in the script, as opposed to a framework call: a
  missing key or attribute, and the exit of \<open>argparse\<close>.
\<close>

definition python_raised :: "exn \<Rightarrow> bool" where
  "python_raised e =
     (case e of KeyError k \<Rightarrow> True | SystemExit \<Rightarrow> True | Other c m \<Rightarrow> c = ''AttributeError'')"

text \<open>
  A run fails fast when it issues no call after one that raised, the raised exception is
  its result as it is, and any other exception it ends with is one Python raised.
\<close>

definition fails_fast :: "framework \<Rightarrow> 'a run \<Rightarrow> bool" where
  "fails_fast fw m =
     (\<forall>tr. \<exists>cs. snd (m tr) = tr @ cs
        \<and> (\<forall>c \<in> set (butlast cs). fw c = None)
        \<and> (\<forall>e. cs \<noteq> [] \<and> fw (last cs) = Some e \<longrightarrow> fst (m tr) = Inl e)
        \<and> (\<forall>e. fst (m tr) = Inl e \<longrightarrow> (cs \<noteq> [] \<and> fw (last cs) = Some e) \<or> python_raised e))"

text \<open>
  The weaker property that holds across a \<open>with\<close> block, whose \<open>__exit__\<close> still runs
  after an exception: once a call has raised the run ends with an exception, that of the
  first call that raised or that of an \<open>__exit__\<close> which raised in turn.
\<close>

definition propagates :: "framework \<Rightarrow> 'a run \<Rightarrow> bool" where
  "propagates fw m =
     (\<forall>tr. \<exists>cs. snd (m tr) = tr @ cs
        \<and> (case find (\<lambda>c. fw c \<noteq> None) cs of
             None \<Rightarrow> (\<forall>e. fst (m tr) = Inl e \<longrightarrow> python_raised e)
           | Some c \<Rightarrow>
               (\<exists>e. fst (m tr) = Inl e
                  \<and> (fw c = Some e \<or> (\<exists>x \<in> set cs. callee x = ''__exit__'' \<and> fw x = Some e)))))"

subsection \<open>The command line, flag by flag\<close>



datatype flag = Model_dir | Train_batch_size | Save_checkpoints_steps | Tpu













section \<open>Theorems\<close>

subsection \<open>Runs\<close>

lemma bnd_Inr:
  "bnd m f s = (Inr v, s') \<longleftrightarrow> (\<exists>a s1. m s = (Inr a, s1) \<and> f a s1 = (Inr v, s'))"
  by (auto simp: bnd_def split: prod.splits sum.splits)

lemma call_Inr:
  "call fw c s = (Inr v, s') \<longleftrightarrow> fw c = None \<and> v = c \<and> s' = s @ [c]"
  by (auto simp: call_def split: option.splits)

lemma ret_Inr: "ret a s = (Inr v, s') \<longleftrightarrow> v = a \<and> s' = s"
  by (auto simp: ret_def)

lemma subscript_Inr:
  "subscript p k s = (Inr v, s') \<longleftrightarrow> map_of p k = Some v \<and> s' = s"
  by (auto simp: subscript_def ret_def throw_def split: option.splits)

lemma bnd_ret: "bnd m ret = m"
  by (auto simp: bnd_def ret_def fun_eq_iff split: prod.splits sum.splits)

lemma bnd_ret_left: "bnd (ret a) f = f a"
  by (simp add: bnd_def ret_def)

lemma bnd_throw: "bnd (throw e) f = throw e"
  by (simp add: bnd_def throw_def)

lemma bnd_assoc: "bnd (bnd m f) g = bnd m (\<lambda>a. bnd (f a) g)"
  by (auto simp: bnd_def fun_eq_iff split: prod.splits sum.splits)

lemma bnd_if: "bnd (if b then m else n) f = (if b then bnd m f else bnd n f)"
  by simp

lemma bnd_call: "bnd (call fw c) f = bnd (straight fw [c] ()) (\<lambda>_. f c)"
  by (auto simp: bnd_def call_def ret_def fun_eq_iff split: option.splits)

lemma call_straight: "call fw c = straight fw [c] c"
  by (auto simp: bnd_def call_def ret_def fun_eq_iff split: option.splits)

lemma ret_straight: "ret a = straight fw [] a"
  by simp

lemma bnd_straight_pair:
  "bnd (straight fw cs (a, b)) f = bnd (straight fw cs ()) (\<lambda>_. f (a, b))"
  by (induction cs) (simp_all add: bnd_ret_left bnd_assoc)

lemma bnd_straight_val:
  "bnd (straight fw cs (a :: val)) f = bnd (straight fw cs ()) (\<lambda>_. f a)"
  by (induction cs) (simp_all add: bnd_ret_left bnd_assoc)

lemma straight_append:
  "bnd (straight fw cs ()) (\<lambda>_. straight fw ds a) = straight fw (cs @ ds) a"
  by (induction cs) (simp_all add: bnd_ret_left bnd_assoc)

lemma straight_Inr:
  "straight fw cs a tr = (Inr r, tr') \<longleftrightarrow> (\<forall>c \<in> set cs. fw c = None) \<and> r = a \<and> tr' = tr @ cs"
  by (induction cs arbitrary: tr) (auto simp: ret_Inr bnd_Inr call_Inr)

lemma bnd_subscript:
  "map_of p k = Some u \<Longrightarrow> bnd (subscript p k) f = f u"
  by (simp add: subscript_def bnd_ret_left)

lemmas straighten = bnd_call bnd_ret_left bnd_assoc prod.case bnd_straight_pair bnd_straight_val
  call_straight straight_append append.simps if_True if_False HOL.simp_thms

subsection \<open>The loop runs its body 100 times\<close>

lemma sless_100:
  "0 \<le> i \<Longrightarrow> i \<le> 100 \<Longrightarrow> ((word_of_int i :: 32 word) <s word_of_int 100) = (i < 100)"
  by (simp add: word_sless_alt int_word_sint)

lemma loop_step_cond_body:
  assumes "0 \<le> i" "i \<le> 100"
  shows "loop_step (cond (Loop_var 0) (Loop_var 1)) (body g (Loop_var 0) (Loop_var 1))
           [RInt (word_of_int i), x] =
         (if i < 100 then Continue [RInt (word_of_int (i + 1)), ROp (Attr g ''discriminator_train_op'')]
          else Stop)"
  using assms sless_100[OF assms]
  by (simp add: loop_step_def cond_def body_def)

lemma run_while_step:
  assumes "0 \<le> i" "i \<le> 100"
  shows "run_while (cond (Loop_var 0) (Loop_var 1)) (body g (Loop_var 0) (Loop_var 1)) n
           [RInt (word_of_int i), x] =
         (if i < 100
          then run_while (cond (Loop_var 0) (Loop_var 1)) (body g (Loop_var 0) (Loop_var 1)) (Suc n)
                 [RInt (word_of_int (i + 1)), ROp (Attr g ''discriminator_train_op'')]
          else Some (n, [RInt (word_of_int i), x]))"
  apply (subst run_while.simps)
  apply (subst loop_step_cond_body[OF assms])
  apply (simp only: step.case if_distrib[of "case_step _ _ _"] cong: if_cong)
  done

lemma run_while_count:
  "0 \<le> i \<Longrightarrow> i \<le> 100 \<Longrightarrow>
   run_while (cond (Loop_var 0) (Loop_var 1)) (body g (Loop_var 0) (Loop_var 1)) n
     [RInt (word_of_int i), x] =
   Some (n + nat (100 - i),
         [RInt 100, if i = 100 then x else ROp (Attr g ''discriminator_train_op'')])"
proof (induction "nat (100 - i)" arbitrary: i n x)
  case 0
  then have "i = 100" by simp
  then show ?case
    by (subst run_while_step) simp_all
next
  case (Suc k)
  then have i: "0 \<le> i" "i \<le> 100" "i < 100" and k: "k = nat (100 - (i + 1))" by simp_all
  have i1: "0 \<le> i + 1" "i + 1 \<le> 100" using i by simp_all
  let ?D = "ROp (Attr g ''discriminator_train_op'')"
  have "run_while (cond (Loop_var 0) (Loop_var 1)) (body g (Loop_var 0) (Loop_var 1)) n
          [RInt (word_of_int i), x] =
        run_while (cond (Loop_var 0) (Loop_var 1)) (body g (Loop_var 0) (Loop_var 1)) (Suc n)
          [RInt (word_of_int (i + 1)), ?D]"
    using run_while_step[OF i(1,2)] i(3) by (simp only: if_True)
  also have "\<dots> = Some (Suc n + nat (100 - (i + 1)), [RInt 100, if i + 1 = 100 then ?D else ?D])"
    by (rule Suc.hyps(1)[OF k i1])
  also have "\<dots> = Some (n + nat (100 - i), [RInt 100, if i = 100 then x else ?D])"
    using i by simp
  finally show ?case .
qed

lemma run_loop_100:
  "w = ''tf.while_loop'' \<or> w = ''tf.contrib.tpu.while_loop'' \<Longrightarrow>
   run_loop (Call w [cond (Loop_var 0) (Loop_var 1), body g (Loop_var 0) (Loop_var 1),
                     Tuple [Call ''tf.constant'' [Lit (PInt 0)] [],
                            Call ''tf.constant'' [Lit (PFloat 0)] []]] []) =
   Some (100, [RInt 100, ROp (Attr g ''discriminator_train_op'')])"
  using run_while_count[of 0 g 0 "RFloat 0"]
  by (auto simp: run_loop_def)

subsection \<open>The model function as straight-line code\<close>

lemma train_branch_straight:
  assumes "map_of params ''use_tpu'' = Some u"
  shows "train_branch fw params global_step gan_model =
     (let gan_loss = Call ''tf.contrib.gan.gan_loss'' [gan_model] [(''add_summaries'', Lit (PBool False))];
          rms = Call ''tf.train.RMSPropOptimizer'' [] [(''learning_rate'', Lit (PFloat (5 / 100)))];
          optimizer = (if truthy u then Call ''tf.contrib.tpu.CrossShardOptimizer'' [rms] [] else rms);
          gan_train_ops = Call ''tf.contrib.gan.gan_train_ops'' [gan_model, gan_loss, optimizer, optimizer] [];
          loop = Call (if truthy u then ''tf.contrib.tpu.while_loop'' else ''tf.while_loop'')
                   [cond (Loop_var 0) (Loop_var 1), body gan_train_ops (Loop_var 0) (Loop_var 1),
                    Tuple [Call ''tf.constant'' [Lit (PInt 0)] [], Call ''tf.constant'' [Lit (PFloat 0)] []]] [];
          step = Method global_step ''assign_add'' [Lit (PInt 1)] [];
          train_op = Call ''tf.group'' [loop, Attr gan_train_ops ''generator_train_op'', step] []
      in straight fw
           ([gan_loss, rms, rms] @ (if truthy u then [optimizer, optimizer] else [])
            @ [gan_train_ops, Call ''tf.constant'' [Lit (PInt 0)] [],
               Call ''tf.constant'' [Lit (PFloat 0)] [], loop, step, train_op])
           (Attr gan_loss ''generator_loss'', train_op))"
proof (cases "truthy u")
  case True
  show ?thesis
    unfolding train_branch_def Let_def
    by (simp only: bnd_call bnd_subscript[OF assms] True if_True bnd_ret_left bnd_assoc prod.case bnd_straight_pair
          ret_straight[of _ fw] straight_append append.simps)
next
  case False
  show ?thesis
    unfolding train_branch_def Let_def
    by (simp only: bnd_call bnd_subscript[OF assms] False if_False bnd_ret_left bnd_assoc prod.case bnd_straight_pair
          ret_straight[of _ fw] straight_append append.simps)
qed

lemma model_fn_Inr_key:
  "model_fn fw features labels mode params tr = (Inr spec, tr') \<Longrightarrow>
   \<exists>u. map_of params ''use_tpu'' = Some u"
  unfolding model_fn_def Let_def
  by (auto simp: bnd_Inr subscript_Inr split: prod.splits)

lemma model_fn_train_straight:
  assumes "map_of params ''use_tpu'' = Some u"
  shows "model_fn fw features labels TRAIN params =
     (let global_step = Call ''tf.train.get_global_step'' [] [];
          gan_model = Call ''tf.contrib.gan.gan_model''
                        [Fn Generator_fn, Fn Discriminator_fn, labels, features] [];
          gan_loss = Call ''tf.contrib.gan.gan_loss'' [gan_model] [(''add_summaries'', Lit (PBool False))];
          rms = Call ''tf.train.RMSPropOptimizer'' [] [(''learning_rate'', Lit (PFloat (5 / 100)))];
          optimizer = (if truthy u then Call ''tf.contrib.tpu.CrossShardOptimizer'' [rms] [] else rms);
          gan_train_ops = Call ''tf.contrib.gan.gan_train_ops'' [gan_model, gan_loss, optimizer, optimizer] [];
          c0 = Call ''tf.constant'' [Lit (PInt 0)] [];
          c1 = Call ''tf.constant'' [Lit (PFloat 0)] [];
          loop = Call (if truthy u then ''tf.contrib.tpu.while_loop'' else ''tf.while_loop'')
                   [cond (Loop_var 0) (Loop_var 1), body gan_train_ops (Loop_var 0) (Loop_var 1),
                    Tuple [c0, c1]] [];
          step = Method global_step ''assign_add'' [Lit (PInt 1)] [];
          train_op = Call ''tf.group'' [loop, Attr gan_train_ops ''generator_train_op'', step] [];
          result = Call (if truthy u then ''tf.contrib.tpu.TPUEstimatorSpec'' else ''tf.estimator.EstimatorSpec'') []
                     [(''mode'', Lit TRAIN), (''predictions'', Attr gan_model ''generated_data''),
                      (''loss'', Attr gan_loss ''generator_loss''), (''train_op'', train_op)]
      in straight fw
           ([global_step, gan_model, gan_loss, rms, rms]
            @ (if truthy u then [optimizer, optimizer] else [])
            @ [gan_train_ops, c0, c1, loop, step, train_op, result])
           result)"
proof (cases "truthy u")
  case True
  show ?thesis
    unfolding model_fn_def Let_def train_branch_straight[OF assms]
    by (simp only: straighten bnd_subscript[OF assms] True ret_straight[of _ fw])
next
  case False
  show ?thesis
    unfolding model_fn_def Let_def train_branch_straight[OF assms]
    by (simp only: straighten bnd_subscript[OF assms] False ret_straight[of _ fw])
qed

lemma model_fn_other_straight:
  assumes "map_of params ''use_tpu'' = Some u" "mode \<noteq> TRAIN"
  shows "model_fn fw features labels mode params =
     (let global_step = Call ''tf.train.get_global_step'' [] [];
          gan_model = Call ''tf.contrib.gan.gan_model''
                        [Fn Generator_fn, Fn Discriminator_fn, labels, features] [];
          result = Call (if truthy u then ''tf.contrib.tpu.TPUEstimatorSpec'' else ''tf.estimator.EstimatorSpec'') []
                     [(''mode'', Lit mode), (''predictions'', Attr gan_model ''generated_data''),
                      (''loss'', Lit PNone), (''train_op'', Lit PNone)]
      in straight fw [global_step, gan_model, result] result)"
proof (cases "truthy u")
  case True
  show ?thesis
    unfolding model_fn_def Let_def
    by (simp only: straighten bnd_subscript[OF assms(1)] True assms(2) ret_straight[of _ fw])
next
  case False
  show ?thesis
    unfolding model_fn_def Let_def
    by (simp only: straighten bnd_subscript[OF assms(1)] False assms(2) ret_straight[of _ fw])
qed

subsection \<open>The main routine as straight-line code\<close>

lemma getattr_Inr:
  "getattr p k s = (Inr v, s') \<longleftrightarrow> map_of p k = Some v \<and> s' = s"
  by (auto simp: getattr_def ret_def throw_def split: option.splits)

lemma bnd_getattr:
  "map_of p k = Some u \<Longrightarrow> bnd (getattr p k) f = f u"
  by (simp add: getattr_def bnd_ret_left)

lemma main_Inr_attrs:
  "main fw args tr = (Inr r, tr') \<Longrightarrow>
   \<exists>u. map_of args ''use_tpu'' = Some u \<and>
     (if truthy u
      then \<exists>t s m b. map_of args ''tpu'' = Some t \<and> map_of args ''save_checkpoints_steps'' = Some s
             \<and> map_of args ''model_dir'' = Some m \<and> map_of args ''train_batch_size'' = Some b
      else \<exists>m. map_of args ''model_dir'' = Some m)"
  unfolding main_def Let_def
  by (auto simp: bnd_Inr getattr_Inr split: if_splits)

lemma main_tpu_straight:
  assumes "map_of args ''use_tpu'' = Some u" "truthy u"
    "map_of args ''tpu'' = Some t" "map_of args ''save_checkpoints_steps'' = Some s"
    "map_of args ''model_dir'' = Some m" "map_of args ''train_batch_size'' = Some b"
  shows "main fw args =
     (let tpu_cluster_resolver = Call ''tf.contrib.cluster_resolver.TPUClusterResolver'' [Lit t] [];
          tpu_config = Call ''tf.contrib.tpu.TPUConfig'' []
                         [(''num_shards'', Lit (PInt 8)), (''iterations_per_loop'', Lit s)];
          config = Call ''tf.contrib.tpu.RunConfig'' []
                     [(''cluster'', tpu_cluster_resolver), (''model_dir'', Lit m),
                      (''tpu_config'', tpu_config), (''save_checkpoints_steps'', Lit s),
                      (''save_summary_steps'', Lit (PInt 10))];
          estimator = Call ''tf.contrib.tpu.TPUEstimator'' []
                        [(''model_fn'', Fn Model_fn), (''config'', config), (''params'', Dict args),
                         (''train_batch_size'', Lit b), (''eval_batch_size'', Lit (PInt 32)),
                         (''export_to_tpu'', Lit (PBool False))]
      in straight fw
           [tpu_cluster_resolver, tpu_config, config, estimator,
            Method estimator ''train'' [Fn Train_input_fn] [(''steps'', Lit (PInt 100))]] ())"
  unfolding main_def Let_def vars_def
  by (simp only: straighten bnd_getattr[OF assms(1)] bnd_getattr[OF assms(3)] bnd_getattr[OF assms(4)]
        bnd_getattr[OF assms(5)] bnd_getattr[OF assms(6)] assms(2) ret_straight[of _ fw])

lemma main_cpu_straight:
  assumes "map_of args ''use_tpu'' = Some u" "\<not> truthy u" "map_of args ''model_dir'' = Some m"
  shows "main fw args =
     (let config = Call ''tf.estimator.RunConfig'' []
                     [(''model_dir'', Lit m), (''save_checkpoints_steps'', Lit (PInt 10)),
                      (''save_summary_steps'', Lit (PInt 10))];
          estimator = Call ''tf.estimator.Estimator'' [Fn Model_fn]
                        [(''config'', config), (''params'', Dict args)]
      in straight fw
           [config, estimator,
            Method estimator ''train'' [Fn Train_input_fn] [(''steps'', Lit (PInt 100))]] ())"
  unfolding main_def Let_def vars_def
  by (simp only: straighten bnd_getattr[OF assms(1)] bnd_getattr[OF assms(3)] assms(2) ret_straight[of _ fw])

lemma main_calls:
  assumes "main fw args tr = (Inr r, tr')"
  shows "\<exists>u. map_of args ''use_tpu'' = Some u \<and>
     (if truthy u
      then \<exists>t s m b. map_of args ''tpu'' = Some t \<and> map_of args ''save_checkpoints_steps'' = Some s
             \<and> map_of args ''model_dir'' = Some m \<and> map_of args ''train_batch_size'' = Some b
             \<and> drop (length tr) tr' =
     (let tpu_cluster_resolver = Call ''tf.contrib.cluster_resolver.TPUClusterResolver'' [Lit t] [];
          tpu_config = Call ''tf.contrib.tpu.TPUConfig'' []
                         [(''num_shards'', Lit (PInt 8)), (''iterations_per_loop'', Lit s)];
          config = Call ''tf.contrib.tpu.RunConfig'' []
                     [(''cluster'', tpu_cluster_resolver), (''model_dir'', Lit m),
                      (''tpu_config'', tpu_config), (''save_checkpoints_steps'', Lit s),
                      (''save_summary_steps'', Lit (PInt 10))];
          estimator = Call ''tf.contrib.tpu.TPUEstimator'' []
                        [(''model_fn'', Fn Model_fn), (''config'', config), (''params'', Dict args),
                         (''train_batch_size'', Lit b), (''eval_batch_size'', Lit (PInt 32)),
                         (''export_to_tpu'', Lit (PBool False))]
      in [tpu_cluster_resolver, tpu_config, config, estimator,
          Method estimator ''train'' [Fn Train_input_fn] [(''steps'', Lit (PInt 100))]])
      else \<exists>m. map_of args ''model_dir'' = Some m
             \<and> drop (length tr) tr' =
     (let config = Call ''tf.estimator.RunConfig'' []
                     [(''model_dir'', Lit m), (''save_checkpoints_steps'', Lit (PInt 10)),
                      (''save_summary_steps'', Lit (PInt 10))];
          estimator = Call ''tf.estimator.Estimator'' [Fn Model_fn]
                        [(''config'', config), (''params'', Dict args)]
      in [config, estimator,
          Method estimator ''train'' [Fn Train_input_fn] [(''steps'', Lit (PInt 100))]]))"
proof -
  from main_Inr_attrs[OF assms] obtain u where u: "map_of args ''use_tpu'' = Some u"
    and rest: "if truthy u
      then \<exists>t s m b. map_of args ''tpu'' = Some t \<and> map_of args ''save_checkpoints_steps'' = Some s
             \<and> map_of args ''model_dir'' = Some m \<and> map_of args ''train_batch_size'' = Some b
      else \<exists>m. map_of args ''model_dir'' = Some m"
    by blast
  show ?thesis
  proof (cases "truthy u")
    case True
    with rest obtain t s m b where attrs: "map_of args ''tpu'' = Some t"
        "map_of args ''save_checkpoints_steps'' = Some s" "map_of args ''model_dir'' = Some m"
        "map_of args ''train_batch_size'' = Some b"
      by auto
    from assms have "drop (length tr) tr' =
     (let tpu_cluster_resolver = Call ''tf.contrib.cluster_resolver.TPUClusterResolver'' [Lit t] [];
          tpu_config = Call ''tf.contrib.tpu.TPUConfig'' []
                         [(''num_shards'', Lit (PInt 8)), (''iterations_per_loop'', Lit s)];
          config = Call ''tf.contrib.tpu.RunConfig'' []
                     [(''cluster'', tpu_cluster_resolver), (''model_dir'', Lit m),
                      (''tpu_config'', tpu_config), (''save_checkpoints_steps'', Lit s),
                      (''save_summary_steps'', Lit (PInt 10))];
          estimator = Call ''tf.contrib.tpu.TPUEstimator'' []
                        [(''model_fn'', Fn Model_fn), (''config'', config), (''params'', Dict args),
                         (''train_batch_size'', Lit b), (''eval_batch_size'', Lit (PInt 32)),
                         (''export_to_tpu'', Lit (PBool False))]
      in [tpu_cluster_resolver, tpu_config, config, estimator,
          Method estimator ''train'' [Fn Train_input_fn] [(''steps'', Lit (PInt 100))]])"
      unfolding main_tpu_straight[OF u True attrs] Let_def straight_Inr by simp
    with u True attrs show ?thesis by simp
  next
    case False
    with rest obtain m where attrs: "map_of args ''model_dir'' = Some m"
      by auto
    from assms have "drop (length tr) tr' =
     (let config = Call ''tf.estimator.RunConfig'' []
                     [(''model_dir'', Lit m), (''save_checkpoints_steps'', Lit (PInt 10)),
                      (''save_summary_steps'', Lit (PInt 10))];
          estimator = Call ''tf.estimator.Estimator'' [Fn Model_fn]
                        [(''config'', config), (''params'', Dict args)]
      in [config, estimator,
          Method estimator ''train'' [Fn Train_input_fn] [(''steps'', Lit (PInt 100))]])"
      unfolding main_cpu_straight[OF u False attrs] Let_def straight_Inr by simp
    with u False attrs show ?thesis by simp
  qed
qed

lemma main_total:
  assumes "map_of args ''use_tpu'' \<noteq> None \<and> map_of args ''tpu'' \<noteq> None
      \<and> map_of args ''save_checkpoints_steps'' \<noteq> None \<and> map_of args ''model_dir'' \<noteq> None
      \<and> map_of args ''train_batch_size'' \<noteq> None \<and> (\<forall>c. fw c = None)"
  shows "\<exists>tr'. main fw args tr = (Inr (), tr')"
proof -
  from assms obtain u t s m b where attrs: "map_of args ''use_tpu'' = Some u" "map_of args ''tpu'' = Some t"
      "map_of args ''save_checkpoints_steps'' = Some s" "map_of args ''model_dir'' = Some m"
      "map_of args ''train_batch_size'' = Some b"
    by auto
  from assms have ok: "\<And>cs a. straight fw cs a tr = (Inr a, tr @ cs)"
    by (simp add: straight_Inr)
  show ?thesis
  proof (cases "truthy u")
    case True
    show ?thesis
      unfolding main_tpu_straight[OF attrs(1) True attrs(2-5)] Let_def ok
      by (intro exI) (rule refl)
  next
    case False
    show ?thesis
      unfolding main_cpu_straight[OF attrs(1) False attrs(4)] Let_def ok
      by (intro exI) (rule refl)
  qed
qed

subsection \<open>The input function and its dataset\<close>

lemma train_input_fn_straight:
  "train_input_fn fw params =
     (let noise_tensor = Call ''tf.random_normal'' [Tuple [Lit (PInt 100), Lit (PInt 5)]] [];
          real_data_tensor = Call ''tf.random_uniform'' [Tuple [Lit (PInt 100), Lit (PInt 3)]] [];
          sliced = Call ''tf.data.Dataset.from_tensor_slices'' [Tuple [noise_tensor, real_data_tensor]] [];
          repeated = Method sliced ''repeat'' [] [];
          shuffled = Method repeated ''shuffle'' [Lit (PInt 10)] [];
          batch_size = get_default params ''train_batch_size'' (PInt 16);
          batched = Method shuffled ''batch'' [Lit batch_size] [(''drop_remainder'', Lit (PBool True))];
          mapped = Method batched ''map'' [Fn (Set_shapes batch_size)] [];
          dataset = Method mapped ''prefetch'' [Name ''tf.contrib.data.AUTOTUNE''] []
      in straight fw [noise_tensor, real_data_tensor, sliced, repeated, shuffled, batched, mapped, dataset]
           dataset)"
  unfolding train_input_fn_def Let_def INPUT_DIM_def OUTPUT_DIM_def
  by (simp only: straighten ret_straight[of _ fw])

lemma sset_chunks: "b \<in> sset (chunks n s) \<Longrightarrow> length b = n"
  by (induction "chunks n s" arbitrary: s rule: sset_induct) auto

lemma static_shapes_dataset:
  assumes "0 \<le> n"
  shows "static_shapes known
     (Method (Method (Method (Method (Method
        (Call ''tf.data.Dataset.from_tensor_slices''
           [Tuple [Call ''tf.random_normal'' [Tuple [Lit (PInt 100), Lit (PInt 5)]] [],
                   Call ''tf.random_uniform'' [Tuple [Lit (PInt 100), Lit (PInt 3)]] []]] [])
        ''repeat'' [] []) ''shuffle'' [Lit (PInt 10)] [])
        ''batch'' [Lit (PInt n)] [(''drop_remainder'', Lit (PBool True))])
        ''map'' [Fn (Set_shapes (PInt n))] [])
        ''prefetch'' [Name ''tf.contrib.data.AUTOTUNE''] []) =
     Some ([Some n, Some 5], [Some n, Some 3])"
  using assms
  by (cases known) (simp_all add: tensor_shape_def int_lit_def lit_int_def set_shapes_def merge_with_def Let_def)

lemma batches_dataset:
  assumes "0 < n"
  shows "batches rnd
     (Method (Method (Method (Method (Method
        (Call ''tf.data.Dataset.from_tensor_slices''
           [Tuple [Call ''tf.random_normal'' [Tuple [Lit (PInt 100), Lit (PInt 5)]] [],
                   Call ''tf.random_uniform'' [Tuple [Lit (PInt 100), Lit (PInt 3)]] []]] [])
        ''repeat'' [] []) ''shuffle'' [Lit (PInt 10)] [])
        ''batch'' [Lit (PInt n)] [(''drop_remainder'', Lit (PBool True))])
        ''map'' [Fn (Set_shapes (PInt n))] [])
        ''prefetch'' [Name ''tf.contrib.data.AUTOTUNE''] []) =
     Some (Infinite_seq (chunks (nat n)
       (shuffle_stream rnd (stake 10 (cycle [0..<100])) (sdrop 10 (cycle [0..<100])))))"
  using assms
  by (simp add: tensor_shape_def int_lit_def lit_int_def Let_def)

subsection \<open>Propagation of exceptions\<close>

lemma fails_fast_ret: "fails_fast fw (ret a)"
  by (auto simp: fails_fast_def ret_def)

lemma fails_fast_throw: "python_raised e \<Longrightarrow> fails_fast fw (throw e)"
  by (auto simp: fails_fast_def throw_def)

lemma fails_fast_call: "fails_fast fw (call fw c)"
  unfolding fails_fast_def
proof
  fix tr
  show "\<exists>cs. snd (call fw c tr) = tr @ cs
        \<and> (\<forall>c \<in> set (butlast cs). fw c = None)
        \<and> (\<forall>e. cs \<noteq> [] \<and> fw (last cs) = Some e \<longrightarrow> fst (call fw c tr) = Inl e)
        \<and> (\<forall>e. fst (call fw c tr) = Inl e \<longrightarrow> (cs \<noteq> [] \<and> fw (last cs) = Some e) \<or> python_raised e)"
    by (rule exI[of _ "[c]"]) (auto simp: call_def split: option.splits)
qed

lemma fails_fast_bnd:
  assumes m: "fails_fast fw m" and f: "\<And>a. fails_fast fw (f a)"
  shows "fails_fast fw (bnd m f)"
  unfolding fails_fast_def
proof
  fix tr
  from m obtain cs1 where 1: "snd (m tr) = tr @ cs1" "\<forall>c \<in> set (butlast cs1). fw c = None"
     "\<forall>e. cs1 \<noteq> [] \<and> fw (last cs1) = Some e \<longrightarrow> fst (m tr) = Inl e"
     "\<forall>e. fst (m tr) = Inl e \<longrightarrow> (cs1 \<noteq> [] \<and> fw (last cs1) = Some e) \<or> python_raised e"
    unfolding fails_fast_def by blast
  let ?P = "\<lambda>cs. snd (bnd m f tr) = tr @ cs
        \<and> (\<forall>c \<in> set (butlast cs). fw c = None)
        \<and> (\<forall>e. cs \<noteq> [] \<and> fw (last cs) = Some e \<longrightarrow> fst (bnd m f tr) = Inl e)
        \<and> (\<forall>e. fst (bnd m f tr) = Inl e \<longrightarrow> (cs \<noteq> [] \<and> fw (last cs) = Some e) \<or> python_raised e)"
  show "\<exists>cs. ?P cs"
  proof (cases "fst (m tr)")
    case (Inl e)
    then have "bnd m f tr = (Inl e, tr @ cs1)"
      using 1(1) by (cases "m tr") (simp add: bnd_def)
    with 1 Inl have "?P cs1" by simp
    then show ?thesis ..
  next
    case (Inr a)
    then have b: "bnd m f tr = f a (tr @ cs1)"
      using 1(1) by (cases "m tr") (simp add: bnd_def)
    from 1(3) Inr have last1: "cs1 \<noteq> [] \<Longrightarrow> fw (last cs1) = None"
      by (cases "fw (last cs1)") auto
    have all1: "\<forall>c \<in> set cs1. fw c = None"
    proof (cases "cs1 = []")
      case False
      then have "cs1 = butlast cs1 @ [last cs1]" by simp
      then have "set cs1 = set (butlast cs1) \<union> {last cs1}"
        by (metis Un_insert_right list.set(1) list.simps(15) set_append sup_bot.right_neutral)
      with 1(2) last1[OF False] show ?thesis by auto
    qed simp
    from f[of a] obtain cs2 where 2: "snd (f a (tr @ cs1)) = (tr @ cs1) @ cs2"
       "\<forall>c \<in> set (butlast cs2). fw c = None"
       "\<forall>e. cs2 \<noteq> [] \<and> fw (last cs2) = Some e \<longrightarrow> fst (f a (tr @ cs1)) = Inl e"
       "\<forall>e. fst (f a (tr @ cs1)) = Inl e \<longrightarrow> (cs2 \<noteq> [] \<and> fw (last cs2) = Some e) \<or> python_raised e"
      unfolding fails_fast_def by blast
    have "?P (cs1 @ cs2)"
    proof (cases "cs2 = []")
      case True
      with 2 b all1 last1 show ?thesis
        by (auto dest: in_set_butlastD)
    next
      case False
      with 2 b all1 show ?thesis
        by (auto simp: butlast_append)
    qed
    then show ?thesis ..
  qed
qed

lemma fails_fast_subscript: "fails_fast fw (subscript p k)"
  by (auto simp: subscript_def fails_fast_ret fails_fast_throw python_raised_def split: option.splits)

lemma fails_fast_getattr: "fails_fast fw (getattr p k)"
  by (auto simp: getattr_def fails_fast_ret fails_fast_throw python_raised_def split: option.splits)

lemma fails_fast_if:
  "fails_fast fw m \<Longrightarrow> fails_fast fw n \<Longrightarrow> fails_fast fw (if b then m else n)"
  by simp

lemma fails_fast_case_prod:
  "(\<And>a b. fails_fast fw (f a b)) \<Longrightarrow> fails_fast fw (case_prod f p)"
  by (cases p) simp

lemmas fails_fast_intros = fails_fast_bnd fails_fast_call fails_fast_ret fails_fast_subscript
  fails_fast_getattr fails_fast_if fails_fast_case_prod

lemma fails_fast_generator_fn: "fails_fast fw (generator_fn fw x)"
  unfolding generator_fn_def by (intro fails_fast_intros)

lemma fails_fast_discriminator_fn: "fails_fast fw (discriminator_fn fw d x)"
  unfolding discriminator_fn_def by (intro fails_fast_intros)

lemma fails_fast_train_branch: "fails_fast fw (train_branch fw params gs gm)"
  unfolding train_branch_def Let_def by (intro fails_fast_intros)

lemma fails_fast_model_fn: "fails_fast fw (model_fn fw features labels mode params)"
  unfolding model_fn_def Let_def by (intro fails_fast_intros fails_fast_train_branch)

lemma fails_fast_train_input_fn: "fails_fast fw (train_input_fn fw params)"
  unfolding train_input_fn_def Let_def by (intro fails_fast_intros)

lemma fails_fast_main: "fails_fast fw (main fw args)"
  unfolding main_def Let_def by (intro fails_fast_intros)

lemma fails_fast_propagates:
  assumes "fails_fast fw m"
  shows "propagates fw m"
  unfolding propagates_def
proof
  fix tr
  from assms obtain cs where 1: "snd (m tr) = tr @ cs" "\<forall>c \<in> set (butlast cs). fw c = None"
     "\<forall>e. cs \<noteq> [] \<and> fw (last cs) = Some e \<longrightarrow> fst (m tr) = Inl e"
     "\<forall>e. fst (m tr) = Inl e \<longrightarrow> (cs \<noteq> [] \<and> fw (last cs) = Some e) \<or> python_raised e"
    unfolding fails_fast_def by blast
  have "case find (\<lambda>c. fw c \<noteq> None) cs of
             None \<Rightarrow> (\<forall>e. fst (m tr) = Inl e \<longrightarrow> python_raised e)
           | Some c \<Rightarrow>
               (\<exists>e. fst (m tr) = Inl e
                  \<and> (fw c = Some e \<or> (\<exists>x \<in> set cs. callee x = ''__exit__'' \<and> fw x = Some e)))"
  proof (cases "find (\<lambda>c. fw c \<noteq> None) cs")
    case None
    then have "\<forall>c \<in> set cs. fw c = None"
      by (auto simp: find_None_iff)
    then have "cs \<noteq> [] \<Longrightarrow> fw (last cs) = None"
      by simp
    with 1(4) None show ?thesis
      by auto
  next
    case (Some c)
    then have c: "c \<in> set cs" "fw c \<noteq> None"
      by (auto simp: find_Some_iff)
    then have ne: "cs \<noteq> []" by auto
    have "c \<notin> set (butlast cs)" using 1(2) c(2) by auto
    moreover from ne have "set cs = set (butlast cs) \<union> {last cs}"
      by (metis append_butlast_last_id list.set(1) list.simps(15) set_append Un_insert_right
          sup_bot.right_neutral)
    ultimately have "c = last cs"
      using c(1) by auto
    with c(2) 1(3) ne Some show ?thesis
      by auto
  qed
  with 1(1) show "\<exists>cs. snd (m tr) = tr @ cs
        \<and> (case find (\<lambda>c. fw c \<noteq> None) cs of
             None \<Rightarrow> (\<forall>e. fst (m tr) = Inl e \<longrightarrow> python_raised e)
           | Some c \<Rightarrow>
               (\<exists>e. fst (m tr) = Inl e
                  \<and> (fw c = Some e \<or> (\<exists>x \<in> set cs. callee x = ''__exit__'' \<and> fw x = Some e))))"
    by blast
qed


lemma find_append:
  "find P (xs @ ys) = (case find P xs of None \<Rightarrow> find P ys | Some x \<Rightarrow> Some x)"
  by (induction xs) simp_all

lemma propagates_bnd:
  assumes m: "propagates fw m" and f: "\<And>a. propagates fw (f a)"
  shows "propagates fw (bnd m f)"
  unfolding propagates_def
proof
  fix tr
  let ?Q = "\<lambda>r cs. case find (\<lambda>c. fw c \<noteq> None) cs of
             None \<Rightarrow> (\<forall>e. r = Inl e \<longrightarrow> python_raised e)
           | Some c \<Rightarrow>
               (\<exists>e. r = Inl e
                  \<and> (fw c = Some e \<or> (\<exists>x \<in> set cs. callee x = ''__exit__'' \<and> fw x = Some e)))"
  from m obtain cs1 where 1: "snd (m tr) = tr @ cs1" "?Q (fst (m tr)) cs1"
    unfolding propagates_def by blast
  show "\<exists>cs. snd (bnd m f tr) = tr @ cs \<and> ?Q (fst (bnd m f tr)) cs"
  proof (cases "fst (m tr)")
    case (Inl e)
    then have "bnd m f tr = (Inl e, tr @ cs1)"
      using 1(1) by (cases "m tr") (simp add: bnd_def)
    with 1 Inl have "snd (bnd m f tr) = tr @ cs1 \<and> ?Q (fst (bnd m f tr)) cs1"
      by (auto split: option.splits)
    then show ?thesis ..
  next
    case (Inr a)
    then have b: "bnd m f tr = f a (tr @ cs1)"
      using 1(1) by (cases "m tr") (simp add: bnd_def)
    from 1(2) Inr have none1: "find (\<lambda>c. fw c \<noteq> None) cs1 = None"
      by (cases "find (\<lambda>c. fw c \<noteq> None) cs1") auto
    from f[of a] obtain cs2 where 2: "snd (f a (tr @ cs1)) = (tr @ cs1) @ cs2"
       "?Q (fst (f a (tr @ cs1))) cs2"
      unfolding propagates_def by blast
    have "find (\<lambda>c. fw c \<noteq> None) (cs1 @ cs2) = find (\<lambda>c. fw c \<noteq> None) cs2"
      using none1 by (simp add: find_append)
    with 2 b have "snd (bnd m f tr) = tr @ (cs1 @ cs2) \<and> ?Q (fst (bnd m f tr)) (cs1 @ cs2)"
      by (auto split: option.splits)
    then show ?thesis ..
  qed
qed

lemma propagates_ret: "propagates fw (ret a)"
  by (simp add: fails_fast_propagates fails_fast_ret)

lemma propagates_call: "propagates fw (call fw c)"
  by (simp add: fails_fast_propagates fails_fast_call)

lemma propagates_with_stmt:
  assumes "\<And>v. propagates fw (block v)"
  shows "propagates fw (with_stmt fw mgr block)"
  unfolding with_stmt_def
proof (rule propagates_bnd[OF propagates_call])
  fix v
  let ?x = "Method mgr ''__exit__'' [] []"
  let ?m = "\<lambda>tr. case block v tr of
         (Inl e, tr') \<Rightarrow>
           (case call fw ?x tr' of
              (Inl e', tr'') \<Rightarrow> (Inl e', tr'')
            | (Inr u, tr'') \<Rightarrow> (Inl e, tr''))
       | (Inr a, tr') \<Rightarrow>
           (case call fw ?x tr' of
              (Inl e', tr'') \<Rightarrow> (Inl e', tr'')
            | (Inr u, tr'') \<Rightarrow> (Inr a, tr''))"
  let ?Q = "\<lambda>r cs. case find (\<lambda>c. fw c \<noteq> None) cs of
             None \<Rightarrow> (\<forall>e. r = Inl e \<longrightarrow> python_raised e)
           | Some c \<Rightarrow>
               (\<exists>e. r = Inl e
                  \<and> (fw c = Some e \<or> (\<exists>x \<in> set cs. callee x = ''__exit__'' \<and> fw x = Some e)))"
  show "propagates fw ?m"
    unfolding propagates_def
  proof
    fix tr
    from assms[of v] obtain cs where 1: "snd (block v tr) = tr @ cs" "?Q (fst (block v tr)) cs"
      unfolding propagates_def by blast
    obtain r where r: "block v tr = (r, tr @ cs)"
      using 1(1) by (cases "block v tr") simp
    have "snd (?m tr) = tr @ (cs @ [?x]) \<and> ?Q (fst (?m tr)) (cs @ [?x])"
      using 1(2) r
      by (cases r; cases "fw ?x"; cases "find (\<lambda>c. fw c \<noteq> None) cs")
        (auto simp: call_def find_append)
    then show "\<exists>cs. snd (?m tr) = tr @ cs \<and> ?Q (fst (?m tr)) cs" ..
  qed
qed

lemma consume_Inl: "consume ns extras pending toks = Inl e \<Longrightarrow> e = SystemExit"
  by (induction ns extras pending toks rule: consume.induct)
    (auto split: tok.splits action.splits option.splits)

lemma parse_known_args_Inl: "parse_known_args p argv = Inl e \<Longrightarrow> e = SystemExit"
  by (auto simp: parse_known_args_def Let_def dest: consume_Inl split: if_splits)

lemma propagates_colab: "propagates fw (colab fw environ args)"
  unfolding colab_def Let_def
  by (auto intro!: propagates_bnd propagates_call propagates_ret propagates_with_stmt
      split: option.splits)

lemma propagates_prepare: "propagates fw (prepare fw pyint argv modules environ)"
proof (cases "parse_known_args (parser pyint) argv")
  case (Inl e)
  then have "e = SystemExit" by (rule parse_known_args_Inl)
  with Inl show ?thesis
    by (simp add: prepare_def fails_fast_propagates fails_fast_throw python_raised_def)
next
  case (Inr x)
  then show ?thesis
    by (cases x) (simp add: prepare_def propagates_colab propagates_ret)
qed

lemma propagates_script: "propagates fw (script fw pyint argv modules environ)"
  unfolding script_def
  by (intro propagates_bnd propagates_prepare fails_fast_propagates fails_fast_main)

subsection \<open>The command line and the notebook case\<close>

lemma map_of_setattr:
  "map_of (setattr ns a v) b = (if b = a then Some v else map_of ns b)"
  by (induction ns a v rule: setattr.induct) auto

lemma with_stmt_Inr:
  "with_stmt fw mgr block tr = (Inr a, tr') \<Longrightarrow>
   \<exists>t1 t2. block (Method mgr ''__enter__'' [] []) t1 = (Inr a, t2)"
  by (auto simp: with_stmt_def bnd_Inr call_Inr split: prod.splits sum.splits)

lemma colab_Inr:
  assumes "colab fw environ a tr = (Inr args, tr')"
  shows "args = (case map_of environ ''COLAB_TPU_ADDR'' of
           None \<Rightarrow> setattr a ''model_dir'' (PStr ''gs://your-gcs-bucket'')
         | Some addr \<Rightarrow>
             setattr (setattr (setattr a ''model_dir'' (PStr ''gs://your-gcs-bucket''))
               ''tpu'' (PStr (''grpc://'' @ addr))) ''use_tpu'' (PBool True))"
  using assms unfolding colab_def Let_def
  by (auto simp: bnd_Inr call_Inr ret_Inr split: option.splits)


lemma parser_eq:
  "parser pyint =
     [Opt [''-h'', ''--help''] ''help'' Help_action None,
      Opt [''--model-dir''] ''model_dir'' (Store (\<lambda>s. Some (PStr s))) (Some (PStr ''/tmp/tpu-template'')),
      Opt [''--train-batch-size''] ''train_batch_size'' (Store (\<lambda>s. map_option PInt (pyint s)))
        (Some (PInt 16)),
      Opt [''--save-checkpoints-steps''] ''save_checkpoints_steps''
        (Store (\<lambda>s. map_option PInt (pyint s))) (Some (PInt 10)),
      Opt [''--use-tpu''] ''use_tpu'' Store_true (Some (PBool False)),
      Opt [''--tpu''] ''tpu'' (Store (\<lambda>s. Some (PStr s))) (Some PNone)]"
  by (simp add: parser_def ArgumentParser_def add_argument_def dest_of_def Let_def)



lemma parse_model_dir:
  "parse_known_args (parser pyint) [''--model-dir'', ''/data''] =
     Inr ([(''model_dir'', PStr ''/data''), (''train_batch_size'', PInt 16),
           (''save_checkpoints_steps'', PInt 10), (''use_tpu'', PBool False), (''tpu'', PNone)], [])"
  by (simp add: parse_known_args_def parser_eq defaults_def parse_optional_def find_opt_def Let_def)

subsection \<open>The command line, token by token\<close>















subsection \<open>The command line, item by item\<close>












subsection \<open>C1: the train operation\<close>

text \<open>
  Claim C1. In training mode \<open>model_fn\<close> returns exactly when \<open>params\<close> has the key
  \<open>use_tpu\<close> and none of its framework calls raises, and then the calls it has issued
  are, in this order: the global step, the GAN model, \<open>gan_loss\<close> (whose
  \<open>generator_loss\<close> is the loss of the returned spec), two \<open>RMSPropOptimizer\<close>s with
  learning rate 0.05, a \<open>CrossShardOptimizer\<close> around each exactly when
  \<open>params['use_tpu']\<close> is true, \<open>gan_train_ops\<close>, the two initial loop values, the
  while loop with condition \<open>i < 100\<close> and body \<open>i + 1\<close>, \<open>global_step.assign_add(1)\<close>,
  the \<open>tf.group\<close> of the loop, the generator train op and that increment, and the
  estimator spec. Run from \<open>i = 0\<close>, the loop executes its body 100 times and ends
  with \<open>i = 100\<close>.
\<close>

theorem model_fn_train_op:
  "model_fn fw features labels TRAIN params tr = (Inr spec, tr') \<longleftrightarrow>
   (\<exists>u. map_of params ''use_tpu'' = Some u \<and>
     (let global_step = Call ''tf.train.get_global_step'' [] [];
          gan_model = Call ''tf.contrib.gan.gan_model''
                        [Fn Generator_fn, Fn Discriminator_fn, labels, features] [];
          gan_loss = Call ''tf.contrib.gan.gan_loss'' [gan_model] [(''add_summaries'', Lit (PBool False))];
          rms = Call ''tf.train.RMSPropOptimizer'' [] [(''learning_rate'', Lit (PFloat (5 / 100)))];
          optimizer = (if truthy u then Call ''tf.contrib.tpu.CrossShardOptimizer'' [rms] [] else rms);
          gan_train_ops = Call ''tf.contrib.gan.gan_train_ops'' [gan_model, gan_loss, optimizer, optimizer] [];
          c0 = Call ''tf.constant'' [Lit (PInt 0)] [];
          c1 = Call ''tf.constant'' [Lit (PFloat 0)] [];
          loop = Call (if truthy u then ''tf.contrib.tpu.while_loop'' else ''tf.while_loop'')
                   [Call ''tf.less'' [Loop_var 0, Lit (PInt 100)] [],
                    Tuple [Call ''tf.add'' [Loop_var 0, Lit (PInt 1)] [],
                           Attr gan_train_ops ''discriminator_train_op''],
                    Tuple [c0, c1]] [];
          step = Method global_step ''assign_add'' [Lit (PInt 1)] [];
          train_op = Call ''tf.group'' [loop, Attr gan_train_ops ''generator_train_op'', step] [];
          result = Call (if truthy u then ''tf.contrib.tpu.TPUEstimatorSpec'' else ''tf.estimator.EstimatorSpec'') []
                     [(''mode'', Lit TRAIN), (''predictions'', Attr gan_model ''generated_data''),
                      (''loss'', Attr gan_loss ''generator_loss''), (''train_op'', train_op)];
          calls = [global_step, gan_model, gan_loss, rms, rms]
                  @ (if truthy u then [optimizer, optimizer] else [])
                  @ [gan_train_ops, c0, c1, loop, step, train_op, result]
      in (\<forall>c \<in> set calls. fw c = None)
         \<and> spec = result
         \<and> tr' = tr @ calls
         \<and> run_loop loop = Some (100, [RInt 100, ROp (Attr gan_train_ops ''discriminator_train_op'')])))"
proof (cases "map_of params ''use_tpu''")
  case None
  have l: "(model_fn fw features labels TRAIN params tr = (Inr spec, tr')) = False"
    using model_fn_Inr_key[of fw features labels TRAIN params tr spec tr'] None by auto
  have r: "\<And>Q. (\<exists>ua. map_of params ''use_tpu'' = Some ua \<and> Q ua) = False"
    using None by simp
  show ?thesis
    unfolding r l by (rule refl)
next
  case (Some u)
  have ex: "\<And>Q. (\<exists>ua. map_of params ''use_tpu'' = Some ua \<and> Q ua) = Q u"
    using Some by simp
  have loop: "\<And>g. run_loop (Call (if truthy u then ''tf.contrib.tpu.while_loop'' else ''tf.while_loop'')
                   [Call ''tf.less'' [Loop_var 0, Lit (PInt 100)] [],
                    Tuple [Call ''tf.add'' [Loop_var 0, Lit (PInt 1)] [],
                           Attr g ''discriminator_train_op''],
                    Tuple [Call ''tf.constant'' [Lit (PInt 0)] [],
                           Call ''tf.constant'' [Lit (PFloat 0)] []]] []) =
       Some (100, [RInt 100, ROp (Attr g ''discriminator_train_op'')])"
    by (rule run_loop_100[unfolded cond_def body_def]) simp
  show ?thesis
    unfolding ex model_fn_train_straight[OF Some] Let_def straight_Inr cond_def body_def
    by (simp only: loop simp_thms)
qed

theorem model_fn_train_op_witness:
  "\<exists>spec tr'.
     model_fn fw_ok (Tensor ''noise'') (Tensor ''real'') TRAIN [(''use_tpu'', PBool True)] [] =
       (Inr spec, tr')
     \<and> length tr' = 14
     \<and> tr' ! 5 = Call ''tf.contrib.tpu.CrossShardOptimizer''
                   [Call ''tf.train.RMSPropOptimizer'' [] [(''learning_rate'', Lit (PFloat (5 / 100)))]] []"
  by (simp add: model_fn_train_op fw_ok_def Let_def run_loop_100[unfolded cond_def body_def])

subsection \<open>C2: one estimator, trained once\<close>

text \<open>
  Claim C2. Whether \<open>args.use_tpu\<close> is true or not, \<open>main\<close> returns when \<open>args\<close> has the
  five attributes of the parser and no framework call raises; and every run of \<open>main\<close>
  that returns has constructed exactly one estimator (a \<open>TPUEstimator\<close> when
  \<open>args.use_tpu\<close> is true, a plain \<open>Estimator\<close> otherwise) and has called \<open>train\<close> exactly
  once, on that estimator, with \<open>train_input_fn\<close> and \<open>steps=100\<close>.
\<close>

theorem main_one_estimator_one_train:
  "(map_of args ''use_tpu'' \<noteq> None \<and> map_of args ''tpu'' \<noteq> None
      \<and> map_of args ''save_checkpoints_steps'' \<noteq> None \<and> map_of args ''model_dir'' \<noteq> None
      \<and> map_of args ''train_batch_size'' \<noteq> None \<and> (\<forall>c. fw c = None) \<longrightarrow>
      (\<exists>tr'. main fw args tr = (Inr (), tr')))
   \<and> (main fw args tr = (Inr r, tr') \<longrightarrow>
      (\<exists>u estimator.
         map_of args ''use_tpu'' = Some u
         \<and> callee estimator =
             (if truthy u then ''tf.contrib.tpu.TPUEstimator'' else ''tf.estimator.Estimator'')
         \<and> filter (\<lambda>c. callee c = ''tf.contrib.tpu.TPUEstimator'' \<or> callee c = ''tf.estimator.Estimator'')
               (drop (length tr) tr') = [estimator]
         \<and> filter (\<lambda>c. callee c = ''train'') (drop (length tr) tr') =
               [Method estimator ''train'' [Fn Train_input_fn] [(''steps'', Lit (PInt 100))]]))"
proof (intro conjI impI)
  assume "map_of args ''use_tpu'' \<noteq> None \<and> map_of args ''tpu'' \<noteq> None
      \<and> map_of args ''save_checkpoints_steps'' \<noteq> None \<and> map_of args ''model_dir'' \<noteq> None
      \<and> map_of args ''train_batch_size'' \<noteq> None \<and> (\<forall>c. fw c = None)"
  then show "\<exists>tr'. main fw args tr = (Inr (), tr')"
    by (rule main_total)
next
  assume run: "main fw args tr = (Inr r, tr')"
  from main_calls[OF run] obtain u where u: "map_of args ''use_tpu'' = Some u"
    and calls: "if truthy u
      then \<exists>t s m b. map_of args ''tpu'' = Some t \<and> map_of args ''save_checkpoints_steps'' = Some s
             \<and> map_of args ''model_dir'' = Some m \<and> map_of args ''train_batch_size'' = Some b
             \<and> drop (length tr) tr' =
     (let tpu_cluster_resolver = Call ''tf.contrib.cluster_resolver.TPUClusterResolver'' [Lit t] [];
          tpu_config = Call ''tf.contrib.tpu.TPUConfig'' []
                         [(''num_shards'', Lit (PInt 8)), (''iterations_per_loop'', Lit s)];
          config = Call ''tf.contrib.tpu.RunConfig'' []
                     [(''cluster'', tpu_cluster_resolver), (''model_dir'', Lit m),
                      (''tpu_config'', tpu_config), (''save_checkpoints_steps'', Lit s),
                      (''save_summary_steps'', Lit (PInt 10))];
          estimator = Call ''tf.contrib.tpu.TPUEstimator'' []
                        [(''model_fn'', Fn Model_fn), (''config'', config), (''params'', Dict args),
                         (''train_batch_size'', Lit b), (''eval_batch_size'', Lit (PInt 32)),
                         (''export_to_tpu'', Lit (PBool False))]
      in [tpu_cluster_resolver, tpu_config, config, estimator,
          Method estimator ''train'' [Fn Train_input_fn] [(''steps'', Lit (PInt 100))]])
      else \<exists>m. map_of args ''model_dir'' = Some m
             \<and> drop (length tr) tr' =
     (let config = Call ''tf.estimator.RunConfig'' []
                     [(''model_dir'', Lit m), (''save_checkpoints_steps'', Lit (PInt 10)),
                      (''save_summary_steps'', Lit (PInt 10))];
          estimator = Call ''tf.estimator.Estimator'' [Fn Model_fn]
                        [(''config'', config), (''params'', Dict args)]
      in [config, estimator,
          Method estimator ''train'' [Fn Train_input_fn] [(''steps'', Lit (PInt 100))]])"
    by blast
  show "\<exists>u estimator.
         map_of args ''use_tpu'' = Some u
         \<and> callee estimator =
             (if truthy u then ''tf.contrib.tpu.TPUEstimator'' else ''tf.estimator.Estimator'')
         \<and> filter (\<lambda>c. callee c = ''tf.contrib.tpu.TPUEstimator'' \<or> callee c = ''tf.estimator.Estimator'')
               (drop (length tr) tr') = [estimator]
         \<and> filter (\<lambda>c. callee c = ''train'') (drop (length tr) tr') =
               [Method estimator ''train'' [Fn Train_input_fn] [(''steps'', Lit (PInt 100))]]"
  proof (cases "truthy u")
    case True
    with calls u show ?thesis
      by (auto simp: Let_def)
  next
    case False
    with calls u show ?thesis
      by (auto simp: Let_def)
  qed
qed

theorem main_one_estimator_one_train_witness:
  "\<exists>tr' estimator.
     main fw_ok [(''model_dir'', PStr ''/tmp/tpu-template''), (''train_batch_size'', PInt 16),
                 (''save_checkpoints_steps'', PInt 10), (''use_tpu'', PBool False), (''tpu'', PNone)] []
       = (Inr (), tr')
     \<and> callee estimator = ''tf.estimator.Estimator''
     \<and> filter (\<lambda>c. callee c = ''train'') tr' =
          [Method estimator ''train'' [Fn Train_input_fn] [(''steps'', Lit (PInt 100))]]"
proof -
  let ?args = "[(''model_dir'', PStr ''/tmp/tpu-template''), (''train_batch_size'', PInt 16),
                 (''save_checkpoints_steps'', PInt 10), (''use_tpu'', PBool False), (''tpu'', PNone)]"
  have "map_of ?args ''use_tpu'' \<noteq> None \<and> map_of ?args ''tpu'' \<noteq> None
      \<and> map_of ?args ''save_checkpoints_steps'' \<noteq> None \<and> map_of ?args ''model_dir'' \<noteq> None
      \<and> map_of ?args ''train_batch_size'' \<noteq> None \<and> (\<forall>c. fw_ok c = None)"
    by (simp add: fw_ok_def)
  with main_one_estimator_one_train[of ?args fw_ok "[]"] obtain tr'
    where r: "main fw_ok ?args [] = (Inr (), tr')"
    by blast
  from main_one_estimator_one_train[of ?args fw_ok "[]" "()" tr', THEN conjunct2, rule_format, OF r] r
  show ?thesis
    by auto
qed

subsection \<open>C3: the checkpoint interval\<close>

text \<open>
  Claim C3. In every run of \<open>main\<close> that returns: when \<open>args.use_tpu\<close> is true, the one
  \<open>TPUConfig\<close> has \<open>iterations_per_loop = args.save_checkpoints_steps\<close> and the one run
  config (the TPU one) has \<open>save_checkpoints_steps = args.save_checkpoints_steps\<close>; when
  it is false there is no \<open>TPUConfig\<close>, and the one run config has
  \<open>save_checkpoints_steps = 10\<close>, whatever \<open>args.save_checkpoints_steps\<close> is.
\<close>

theorem checkpoint_steps_only_on_tpu:
  "main fw args tr = (Inr r, tr') \<longrightarrow>
     (\<exists>u. map_of args ''use_tpu'' = Some u \<and>
       (if truthy u
        then \<exists>s cluster m.
               map_of args ''save_checkpoints_steps'' = Some s
               \<and> filter (\<lambda>c. callee c = ''tf.contrib.tpu.TPUConfig'') (drop (length tr) tr') =
                   [Call ''tf.contrib.tpu.TPUConfig'' []
                      [(''num_shards'', Lit (PInt 8)), (''iterations_per_loop'', Lit s)]]
               \<and> filter (\<lambda>c. callee c = ''tf.contrib.tpu.RunConfig'' \<or> callee c = ''tf.estimator.RunConfig'')
                     (drop (length tr) tr') =
                   [Call ''tf.contrib.tpu.RunConfig'' []
                      [(''cluster'', cluster), (''model_dir'', Lit m),
                       (''tpu_config'', Call ''tf.contrib.tpu.TPUConfig'' []
                          [(''num_shards'', Lit (PInt 8)), (''iterations_per_loop'', Lit s)]),
                       (''save_checkpoints_steps'', Lit s),
                       (''save_summary_steps'', Lit (PInt 10))]]
        else \<exists>m.
               filter (\<lambda>c. callee c = ''tf.contrib.tpu.TPUConfig'') (drop (length tr) tr') = []
               \<and> filter (\<lambda>c. callee c = ''tf.contrib.tpu.RunConfig'' \<or> callee c = ''tf.estimator.RunConfig'')
                     (drop (length tr) tr') =
                   [Call ''tf.estimator.RunConfig'' []
                      [(''model_dir'', Lit m), (''save_checkpoints_steps'', Lit (PInt 10)),
                       (''save_summary_steps'', Lit (PInt 10))]]))"
proof
  assume run: "main fw args tr = (Inr r, tr')"
  from main_calls[OF run] obtain u where u: "map_of args ''use_tpu'' = Some u"
    and calls: "if truthy u
      then \<exists>t s m b. map_of args ''tpu'' = Some t \<and> map_of args ''save_checkpoints_steps'' = Some s
             \<and> map_of args ''model_dir'' = Some m \<and> map_of args ''train_batch_size'' = Some b
             \<and> drop (length tr) tr' =
     (let tpu_cluster_resolver = Call ''tf.contrib.cluster_resolver.TPUClusterResolver'' [Lit t] [];
          tpu_config = Call ''tf.contrib.tpu.TPUConfig'' []
                         [(''num_shards'', Lit (PInt 8)), (''iterations_per_loop'', Lit s)];
          config = Call ''tf.contrib.tpu.RunConfig'' []
                     [(''cluster'', tpu_cluster_resolver), (''model_dir'', Lit m),
                      (''tpu_config'', tpu_config), (''save_checkpoints_steps'', Lit s),
                      (''save_summary_steps'', Lit (PInt 10))];
          estimator = Call ''tf.contrib.tpu.TPUEstimator'' []
                        [(''model_fn'', Fn Model_fn), (''config'', config), (''params'', Dict args),
                         (''train_batch_size'', Lit b), (''eval_batch_size'', Lit (PInt 32)),
                         (''export_to_tpu'', Lit (PBool False))]
      in [tpu_cluster_resolver, tpu_config, config, estimator,
          Method estimator ''train'' [Fn Train_input_fn] [(''steps'', Lit (PInt 100))]])
      else \<exists>m. map_of args ''model_dir'' = Some m
             \<and> drop (length tr) tr' =
     (let config = Call ''tf.estimator.RunConfig'' []
                     [(''model_dir'', Lit m), (''save_checkpoints_steps'', Lit (PInt 10)),
                      (''save_summary_steps'', Lit (PInt 10))];
          estimator = Call ''tf.estimator.Estimator'' [Fn Model_fn]
                        [(''config'', config), (''params'', Dict args)]
      in [config, estimator,
          Method estimator ''train'' [Fn Train_input_fn] [(''steps'', Lit (PInt 100))]])"
    by blast
  show "\<exists>u. map_of args ''use_tpu'' = Some u \<and>
       (if truthy u
        then \<exists>s cluster m.
               map_of args ''save_checkpoints_steps'' = Some s
               \<and> filter (\<lambda>c. callee c = ''tf.contrib.tpu.TPUConfig'') (drop (length tr) tr') =
                   [Call ''tf.contrib.tpu.TPUConfig'' []
                      [(''num_shards'', Lit (PInt 8)), (''iterations_per_loop'', Lit s)]]
               \<and> filter (\<lambda>c. callee c = ''tf.contrib.tpu.RunConfig'' \<or> callee c = ''tf.estimator.RunConfig'')
                     (drop (length tr) tr') =
                   [Call ''tf.contrib.tpu.RunConfig'' []
                      [(''cluster'', cluster), (''model_dir'', Lit m),
                       (''tpu_config'', Call ''tf.contrib.tpu.TPUConfig'' []
                          [(''num_shards'', Lit (PInt 8)), (''iterations_per_loop'', Lit s)]),
                       (''save_checkpoints_steps'', Lit s),
                       (''save_summary_steps'', Lit (PInt 10))]]
        else \<exists>m.
               filter (\<lambda>c. callee c = ''tf.contrib.tpu.TPUConfig'') (drop (length tr) tr') = []
               \<and> filter (\<lambda>c. callee c = ''tf.contrib.tpu.RunConfig'' \<or> callee c = ''tf.estimator.RunConfig'')
                     (drop (length tr) tr') =
                   [Call ''tf.estimator.RunConfig'' []
                      [(''model_dir'', Lit m), (''save_checkpoints_steps'', Lit (PInt 10)),
                       (''save_summary_steps'', Lit (PInt 10))]])"
  proof (cases "truthy u")
    case True
    with calls u show ?thesis
      by (auto simp: Let_def)
  next
    case False
    with calls u show ?thesis
      by (auto simp: Let_def)
  qed
qed

theorem checkpoint_steps_only_on_tpu_witness:
  "\<exists>tr'.
     main fw_ok [(''model_dir'', PStr ''gs://bucket''), (''train_batch_size'', PInt 16),
                 (''save_checkpoints_steps'', PInt 25), (''use_tpu'', PBool True),
                 (''tpu'', PStr ''grpc://10.0.0.2:8470'')] []
       = (Inr (), tr')
     \<and> filter (\<lambda>c. callee c = ''tf.contrib.tpu.TPUConfig'') tr' =
          [Call ''tf.contrib.tpu.TPUConfig'' []
             [(''num_shards'', Lit (PInt 8)), (''iterations_per_loop'', Lit (PInt 25))]]"
proof -
  let ?args = "[(''model_dir'', PStr ''gs://bucket''), (''train_batch_size'', PInt 16),
                 (''save_checkpoints_steps'', PInt 25), (''use_tpu'', PBool True),
                 (''tpu'', PStr ''grpc://10.0.0.2:8470'')]"
  have "map_of ?args ''use_tpu'' \<noteq> None \<and> map_of ?args ''tpu'' \<noteq> None
      \<and> map_of ?args ''save_checkpoints_steps'' \<noteq> None \<and> map_of ?args ''model_dir'' \<noteq> None
      \<and> map_of ?args ''train_batch_size'' \<noteq> None \<and> (\<forall>c. fw_ok c = None)"
    by (simp add: fw_ok_def)
  then obtain tr' where r: "main fw_ok ?args [] = (Inr (), tr')"
    using main_total by blast
  from checkpoint_steps_only_on_tpu[of fw_ok ?args "[]" "()" tr', rule_format, OF r] r
  show ?thesis
    by auto
qed

subsection \<open>C4: the estimator spec\<close>

text \<open>
  Claim C4. For every mode and every \<open>params\<close>: \<open>model_fn\<close> returns whenever \<open>params\<close>
  has the key \<open>use_tpu\<close> and no framework call raises; and whatever it returns is a
  \<open>TPUEstimatorSpec\<close> if \<open>params['use_tpu']\<close> is true and a plain \<open>EstimatorSpec\<close>
  otherwise, its \<open>predictions\<close> are the GAN model's \<open>generated_data\<close>, and when the mode
  is not \<open>TRAIN\<close> its \<open>loss\<close> and \<open>train_op\<close> are both \<open>None\<close>.
\<close>

theorem model_fn_returns_spec:
  "(map_of params ''use_tpu'' \<noteq> None \<and> (\<forall>c. fw c = None) \<longrightarrow>
      (\<exists>spec tr'. model_fn fw features labels mode params tr = (Inr spec, tr')))
   \<and> (model_fn fw features labels mode params tr = (Inr spec, tr') \<longrightarrow>
      (\<exists>u loss train_op.
         map_of params ''use_tpu'' = Some u
         \<and> spec = Call (if truthy u then ''tf.contrib.tpu.TPUEstimatorSpec''
                        else ''tf.estimator.EstimatorSpec'') []
                    [(''mode'', Lit mode),
                     (''predictions'',
                      Attr (Call ''tf.contrib.gan.gan_model''
                              [Fn Generator_fn, Fn Discriminator_fn, labels, features] [])
                        ''generated_data''),
                     (''loss'', loss), (''train_op'', train_op)]
         \<and> (mode \<noteq> TRAIN \<longrightarrow> loss = Lit PNone \<and> train_op = Lit PNone)))"
proof (intro conjI impI)
  assume a: "map_of params ''use_tpu'' \<noteq> None \<and> (\<forall>c. fw c = None)"
  then obtain u where u: "map_of params ''use_tpu'' = Some u" by auto
  from a have ok: "\<And>cs a. straight fw cs a tr = (Inr a, tr @ cs)"
    by (simp add: straight_Inr)
  show "\<exists>spec tr'. model_fn fw features labels mode params tr = (Inr spec, tr')"
  proof (cases "mode = TRAIN")
    case True
    show ?thesis
      unfolding True model_fn_train_straight[OF u] Let_def ok
      by (intro exI) (rule refl)
  next
    case False
    show ?thesis
      unfolding model_fn_other_straight[OF u False] Let_def ok
      by (intro exI) (rule refl)
  qed
next
  assume run: "model_fn fw features labels mode params tr = (Inr spec, tr')"
  then obtain u where u: "map_of params ''use_tpu'' = Some u"
    using model_fn_Inr_key by blast
  show "\<exists>u loss train_op.
         map_of params ''use_tpu'' = Some u
         \<and> spec = Call (if truthy u then ''tf.contrib.tpu.TPUEstimatorSpec''
                        else ''tf.estimator.EstimatorSpec'') []
                    [(''mode'', Lit mode),
                     (''predictions'',
                      Attr (Call ''tf.contrib.gan.gan_model''
                              [Fn Generator_fn, Fn Discriminator_fn, labels, features] [])
                        ''generated_data''),
                     (''loss'', loss), (''train_op'', train_op)]
         \<and> (mode \<noteq> TRAIN \<longrightarrow> loss = Lit PNone \<and> train_op = Lit PNone)"
  proof (cases "mode = TRAIN")
    case True
    from run have "spec = Call (if truthy u then ''tf.contrib.tpu.TPUEstimatorSpec''
                        else ''tf.estimator.EstimatorSpec'') []
                    [(''mode'', Lit mode),
                     (''predictions'',
                      Attr (Call ''tf.contrib.gan.gan_model''
                              [Fn Generator_fn, Fn Discriminator_fn, labels, features] [])
                        ''generated_data''),
                     (''loss'', the (map_of (case spec of Call f a kw \<Rightarrow> kw) ''loss'')),
                     (''train_op'', the (map_of (case spec of Call f a kw \<Rightarrow> kw) ''train_op''))]"
      unfolding True model_fn_train_straight[OF u] Let_def straight_Inr
      by (elim conjE) (simp only:, simp)
    with u True show ?thesis by blast
  next
    case False
    from run have "spec = Call (if truthy u then ''tf.contrib.tpu.TPUEstimatorSpec''
                        else ''tf.estimator.EstimatorSpec'') []
                    [(''mode'', Lit mode),
                     (''predictions'',
                      Attr (Call ''tf.contrib.gan.gan_model''
                              [Fn Generator_fn, Fn Discriminator_fn, labels, features] [])
                        ''generated_data''),
                     (''loss'', Lit PNone), (''train_op'', Lit PNone)]"
      unfolding model_fn_other_straight[OF u False] Let_def straight_Inr
      by (elim conjE)
    with u show ?thesis by blast
  qed
qed

theorem model_fn_returns_spec_witness:
  "\<exists>tr'.
     model_fn fw_ok (Tensor ''noise'') (Tensor ''real'') (PStr ''infer'') [(''use_tpu'', PBool False)] [] =
       (Inr (Call ''tf.estimator.EstimatorSpec'' []
               [(''mode'', Lit (PStr ''infer'')),
                (''predictions'',
                 Attr (Call ''tf.contrib.gan.gan_model''
                         [Fn Generator_fn, Fn Discriminator_fn, Tensor ''real'', Tensor ''noise''] [])
                   ''generated_data''),
                (''loss'', Lit PNone), (''train_op'', Lit PNone)]), tr')"
proof -
  let ?run = "model_fn fw_ok (Tensor ''noise'') (Tensor ''real'') (PStr ''infer'')
                [(''use_tpu'', PBool False)] []"
  have "map_of [(''use_tpu'', PBool False)] ''use_tpu'' \<noteq> None \<and> (\<forall>c. fw_ok c = None)"
    by (simp add: fw_ok_def)
  with model_fn_returns_spec obtain spec tr' where r: "?run = (Inr spec, tr')"
    by blast
  from model_fn_returns_spec[THEN conjunct2, rule_format, OF r] r
  show ?thesis
    by (auto simp: TRAIN_def)
qed

subsection \<open>C5: the batches\<close>

text \<open>
  Claim C5. The dataset \<open>train_input_fn\<close> returns is batched with
  \<open>batch_size = params['train_batch_size']\<close> if the key is present and 16 otherwise,
  with \<open>drop_remainder=True\<close>, and then mapped with \<open>set_shapes\<close> for that batch size.
  For an integer batch size the static shapes of its elements are
  \<open>[batch_size, 5]\<close> and \<open>[batch_size, 3]\<close>, whether or not \<open>batch\<close> itself knew the batch
  dimension; for a positive one the dataset yields batches for ever and every batch
  has exactly \<open>batch_size\<close> rows.
\<close>

theorem train_input_fn_batches:
  "((\<forall>c. fw c = None) \<longrightarrow> (\<exists>dataset tr'. train_input_fn fw params tr = (Inr dataset, tr')))
   \<and> (train_input_fn fw params tr = (Inr dataset, tr') \<longrightarrow>
     (let batch_size = (case map_of params ''train_batch_size'' of None \<Rightarrow> PInt 16 | Some v \<Rightarrow> v) in
        (\<exists>upstream.
           dataset = Method (Method (Method upstream
                       ''batch'' [Lit batch_size] [(''drop_remainder'', Lit (PBool True))])
                       ''map'' [Fn (Set_shapes batch_size)] [])
                       ''prefetch'' [Name ''tf.contrib.data.AUTOTUNE''] [])
        \<and> (\<forall>n. batch_size = PInt n \<and> 0 \<le> n \<longrightarrow>
              static_shapes known dataset = Some ([Some n, Some 5], [Some n, Some 3]))
        \<and> (\<forall>n. batch_size = PInt n \<and> 0 < n \<longrightarrow>
              (\<exists>s. batches rnd dataset = Some (Infinite_seq s)
                   \<and> (\<forall>b \<in> sset s. length b = nat n)))))"
proof (intro conjI impI)
  assume "\<forall>c. fw c = None"
  then have ok: "\<And>cs a. straight fw cs a tr = (Inr a, tr @ cs)"
    by (simp add: straight_Inr)
  show "\<exists>dataset tr'. train_input_fn fw params tr = (Inr dataset, tr')"
    unfolding train_input_fn_straight Let_def ok
    by (intro exI) (rule refl)
next
  assume run: "train_input_fn fw params tr = (Inr dataset, tr')"
  define batch_size where
    "batch_size = (case map_of params ''train_batch_size'' of None \<Rightarrow> PInt 16 | Some v \<Rightarrow> v)"
  have bs: "get_default params ''train_batch_size'' (PInt 16) = batch_size"
    by (simp add: get_default_def batch_size_def)
  from run have ds: "dataset =
     Method (Method (Method (Method (Method
        (Call ''tf.data.Dataset.from_tensor_slices''
           [Tuple [Call ''tf.random_normal'' [Tuple [Lit (PInt 100), Lit (PInt 5)]] [],
                   Call ''tf.random_uniform'' [Tuple [Lit (PInt 100), Lit (PInt 3)]] []]] [])
        ''repeat'' [] []) ''shuffle'' [Lit (PInt 10)] [])
        ''batch'' [Lit batch_size] [(''drop_remainder'', Lit (PBool True))])
        ''map'' [Fn (Set_shapes batch_size)] [])
        ''prefetch'' [Name ''tf.contrib.data.AUTOTUNE''] []"
    unfolding train_input_fn_straight Let_def straight_Inr bs by (elim conjE)
  have a: "\<exists>upstream.
           dataset = Method (Method (Method upstream
                       ''batch'' [Lit batch_size] [(''drop_remainder'', Lit (PBool True))])
                       ''map'' [Fn (Set_shapes batch_size)] [])
                       ''prefetch'' [Name ''tf.contrib.data.AUTOTUNE''] []"
    unfolding ds by blast
  have b: "\<forall>n. batch_size = PInt n \<and> 0 \<le> n \<longrightarrow>
              static_shapes known dataset = Some ([Some n, Some 5], [Some n, Some 3])"
    unfolding ds using static_shapes_dataset by blast
  have c: "\<forall>n. batch_size = PInt n \<and> 0 < n \<longrightarrow>
              (\<exists>s. batches rnd dataset = Some (Infinite_seq s)
                   \<and> (\<forall>b \<in> sset s. length b = nat n))"
    unfolding ds using batches_dataset sset_chunks by blast
  from a b c show "let batch_size = (case map_of params ''train_batch_size'' of None \<Rightarrow> PInt 16 | Some v \<Rightarrow> v) in
        (\<exists>upstream.
           dataset = Method (Method (Method upstream
                       ''batch'' [Lit batch_size] [(''drop_remainder'', Lit (PBool True))])
                       ''map'' [Fn (Set_shapes batch_size)] [])
                       ''prefetch'' [Name ''tf.contrib.data.AUTOTUNE''] [])
        \<and> (\<forall>n. batch_size = PInt n \<and> 0 \<le> n \<longrightarrow>
              static_shapes known dataset = Some ([Some n, Some 5], [Some n, Some 3]))
        \<and> (\<forall>n. batch_size = PInt n \<and> 0 < n \<longrightarrow>
              (\<exists>s. batches rnd dataset = Some (Infinite_seq s)
                   \<and> (\<forall>b \<in> sset s. length b = nat n)))"
    unfolding Let_def batch_size_def by blast
qed

theorem train_input_fn_batches_witness:
  "\<exists>dataset tr' s.
     train_input_fn fw_ok [] [] = (Inr dataset, tr')
     \<and> static_shapes False dataset = Some ([Some 16, Some 5], [Some 16, Some 3])
     \<and> batches (sconst 0) dataset = Some (Infinite_seq s)
     \<and> length (shd s) = 16"
proof -
  have "\<forall>c. fw_ok c = None"
    by (simp add: fw_ok_def)
  with train_input_fn_batches[of fw_ok "[]" "[]"] obtain dataset tr'
    where r: "train_input_fn fw_ok [] [] = (Inr dataset, tr')"
    by blast
  from train_input_fn_batches[of fw_ok "[]" "[]" dataset tr' False "sconst 0", THEN conjunct2, rule_format, OF r]
  have "static_shapes False dataset = Some ([Some 16, Some 5], [Some 16, Some 3])"
    and "\<exists>s. batches (sconst 0) dataset = Some (Infinite_seq s) \<and> (\<forall>b \<in> sset s. length b = nat 16)"
    by (simp_all add: Let_def)
  with r show ?thesis
    by (metis nat_numeral shd_sset)
qed


subsection \<open>C6: the two networks\<close>

text \<open>
  Claim C6. \<open>generator_fn\<close> issues exactly one framework call, a dense layer with
  \<open>OUTPUT_DIM = 3\<close> units on its inputs, and returns that layer's output;
  \<open>discriminator_fn\<close> issues exactly one, a dense layer with 1 unit on \<open>data\<close>, and
  does not depend on \<open>generator_inputs\<close>.
\<close>

theorem networks_one_dense_layer:
  "generator_fn fw generator_inputs tr =
     (case fw (Call ''tf.layers.dense'' [generator_inputs, Lit (PInt 3)] []) of
        Some e \<Rightarrow> Inl e
      | None \<Rightarrow> Inr (Call ''tf.layers.dense'' [generator_inputs, Lit (PInt 3)] []),
      tr @ [Call ''tf.layers.dense'' [generator_inputs, Lit (PInt 3)] []])
   \<and> discriminator_fn fw data generator_inputs tr =
     (case fw (Call ''tf.layers.dense'' [data, Lit (PInt 1)] []) of
        Some e \<Rightarrow> Inl e
      | None \<Rightarrow> Inr (Call ''tf.layers.dense'' [data, Lit (PInt 1)] []),
      tr @ [Call ''tf.layers.dense'' [data, Lit (PInt 1)] []])
   \<and> discriminator_fn fw data generator_inputs = discriminator_fn fw data other_inputs
   \<and> OUTPUT_DIM = 3"
  by (simp add: generator_fn_def discriminator_fn_def bnd_ret call_def OUTPUT_DIM_def)

subsection \<open>C7: the notebook case\<close>

text \<open>
  Claim C7. \<open>main\<close> is called with the arguments as they stand at the end of the
  preparation, after every call the preparation issues. When \<open>google.colab\<close> is among the
  loaded modules, those arguments have \<open>model_dir = 'gs://your-gcs-bucket'\<close>, whatever
  the command line said; and when \<open>COLAB_TPU_ADDR\<close> is set in the environment as well,
  they have \<open>tpu = 'grpc://'\<close> followed by its value and \<open>use_tpu = True\<close>.
\<close>

theorem colab_overrides_args:
  "(prepare fw pyint argv modules environ tr = (Inr args, tr') \<longrightarrow>
      script fw pyint argv modules environ tr = main fw args tr')
   \<and> (''google.colab'' \<in> set modules \<and> prepare fw pyint argv modules environ tr = (Inr args, tr') \<longrightarrow>
        map_of args ''model_dir'' = Some (PStr ''gs://your-gcs-bucket'')
        \<and> (\<forall>addr. map_of environ ''COLAB_TPU_ADDR'' = Some addr \<longrightarrow>
              map_of args ''tpu'' = Some (PStr (''grpc://'' @ addr))
              \<and> map_of args ''use_tpu'' = Some (PBool True)))"
proof (rule conjI; rule impI)
  assume "prepare fw pyint argv modules environ tr = (Inr args, tr')"
  then show "script fw pyint argv modules environ tr = main fw args tr'"
    by (simp add: script_def bnd_def)
next
  assume a: "''google.colab'' \<in> set modules \<and> prepare fw pyint argv modules environ tr = (Inr args, tr')"
  then obtain parsed where "colab fw environ parsed tr = (Inr args, tr')"
    by (auto simp: prepare_def throw_def split: sum.splits)
  from colab_Inr[OF this]
  show "map_of args ''model_dir'' = Some (PStr ''gs://your-gcs-bucket'')
        \<and> (\<forall>addr. map_of environ ''COLAB_TPU_ADDR'' = Some addr \<longrightarrow>
              map_of args ''tpu'' = Some (PStr (''grpc://'' @ addr))
              \<and> map_of args ''use_tpu'' = Some (PBool True))"
    by (auto simp: map_of_setattr split: option.splits)
qed

theorem colab_overrides_args_witness:
  "\<exists>args tr'.
     prepare fw_ok (\<lambda>s. None) [''--model-dir'', ''/data''] [''google.colab'']
       [(''COLAB_TPU_ADDR'', ''10.0.0.2:8470'')] [] = (Inr args, tr')
     \<and> map_of args ''model_dir'' = Some (PStr ''gs://your-gcs-bucket'')
     \<and> map_of args ''tpu'' = Some (PStr ''grpc://10.0.0.2:8470'')
     \<and> map_of args ''use_tpu'' = Some (PBool True)"
proof -
  let ?run = "prepare fw_ok (\<lambda>s. None) [''--model-dir'', ''/data''] [''google.colab'']
       [(''COLAB_TPU_ADDR'', ''10.0.0.2:8470'')] []"
  have "\<exists>args tr'. ?run = (Inr args, tr')"
    by (simp add: prepare_def parse_model_dir colab_def with_stmt_def bnd_def call_def ret_def
        fw_ok_def Let_def)
  then obtain args tr' where r: "?run = (Inr args, tr')"
    by blast
  have "''google.colab'' \<in> set [''google.colab''] \<and> ?run = (Inr args, tr')"
    using r by simp
  from colab_overrides_args[THEN conjunct2, rule_format, OF this] r
  show ?thesis
    by auto
qed

subsection \<open>C8: the command line\<close>




subsection \<open>C9: the synthetic data\<close>

text \<open>
  Claim C9. Every invocation of \<open>train_input_fn\<close> issues the same eight calls, whatever
  was called before it: a \<open>tf.random_normal\<close> of shape (100, 5), a \<open>tf.random_uniform\<close> of
  shape (100, 3), \<open>from_tensor_slices\<close> on those two tensors, and the five dataset
  transformations. Two invocations draw the two tensors twice. These are all the calls
  it issues, and none of them reads or writes storage.
\<close>

theorem train_input_fn_regenerates:
  "(let noise_tensor = Call ''tf.random_normal'' [Tuple [Lit (PInt 100), Lit (PInt 5)]] [];
          real_data_tensor = Call ''tf.random_uniform'' [Tuple [Lit (PInt 100), Lit (PInt 3)]] [];
          sliced = Call ''tf.data.Dataset.from_tensor_slices'' [Tuple [noise_tensor, real_data_tensor]] [];
          repeated = Method sliced ''repeat'' [] [];
          shuffled = Method repeated ''shuffle'' [Lit (PInt 10)] [];
          batch_size = get_default params ''train_batch_size'' (PInt 16);
          batched = Method shuffled ''batch'' [Lit batch_size] [(''drop_remainder'', Lit (PBool True))];
          mapped = Method batched ''map'' [Fn (Set_shapes batch_size)] [];
          dataset = Method mapped ''prefetch'' [Name ''tf.contrib.data.AUTOTUNE''] [];
          calls = [noise_tensor, real_data_tensor, sliced, repeated, shuffled, batched, mapped, dataset]
      in train_input_fn fw params = straight fw calls dataset
         \<and> train_input_fn fw_ok params tr = (Inr dataset, tr @ calls)
         \<and> bnd (train_input_fn fw_ok params) (\<lambda>_. train_input_fn fw_ok params) tr =
             (Inr dataset, tr @ calls @ calls)
         \<and> map callee calls =
             [''tf.random_normal'', ''tf.random_uniform'', ''tf.data.Dataset.from_tensor_slices'',
              ''repeat'', ''shuffle'', ''batch'', ''map'', ''prefetch''])"
proof -
  have ok: "\<And>cs a t. straight fw_ok cs a t = (Inr a, t @ cs)"
    by (simp add: straight_Inr fw_ok_def)
  show ?thesis
    unfolding train_input_fn_straight Let_def
    by (intro conjI) (simp_all only: ok bnd_def prod.case sum.case append_assoc list.map callee.simps)
qed


subsection \<open>C10: no error handling\<close>

text \<open>
  Claim C10. Every function of the script fails fast: the first framework call that
  raises is the last call the function issues, and the function ends with exactly that
  exception. The script as a whole propagates every exception too; the only call it may
  still issue after one has raised is the \<open>__exit__\<close> of the session's \<open>with\<close> block,
  which Python runs on the way out.
\<close>

theorem exceptions_propagate:
  "fails_fast fw (generator_fn fw generator_inputs)
   \<and> fails_fast fw (discriminator_fn fw data generator_inputs)
   \<and> fails_fast fw (model_fn fw features labels mode params)
   \<and> fails_fast fw (train_input_fn fw params)
   \<and> fails_fast fw (main fw args)
   \<and> propagates fw (script fw pyint argv modules environ)"
  by (intro conjI fails_fast_generator_fn fails_fast_discriminator_fn fails_fast_model_fn
      fails_fast_train_input_fn fails_fast_main propagates_script)

theorem exceptions_propagate_witness:
  "main (\<lambda>c. if callee c = ''tf.estimator.RunConfig''
              then Some (Other ''ValueError'' ''model_dir'') else None)
     [(''model_dir'', PStr ''/tmp/tpu-template''), (''use_tpu'', PBool False)] [] =
   (Inl (Other ''ValueError'' ''model_dir''),
    [Call ''tf.estimator.RunConfig'' []
       [(''model_dir'', Lit (PStr ''/tmp/tpu-template'')),
        (''save_checkpoints_steps'', Lit (PInt 10)), (''save_summary_steps'', Lit (PInt 10))]])"
proof -
  let ?fw = "\<lambda>c. if callee c = ''tf.estimator.RunConfig''
              then Some (Other ''ValueError'' ''model_dir'') else None"
  let ?args = "[(''model_dir'', PStr ''/tmp/tpu-template''), (''use_tpu'', PBool False)]"
  let ?c = "Call ''tf.estimator.RunConfig'' []
       [(''model_dir'', Lit (PStr ''/tmp/tpu-template'')),
        (''save_checkpoints_steps'', Lit (PInt 10)), (''save_summary_steps'', Lit (PInt 10))]"
  have s: "snd (main ?fw ?args []) = [?c]"
    by (simp add: main_def Let_def vars_def bnd_def getattr_def ret_def call_def)
  from exceptions_propagate[of ?fw _ _ _ _ _ _ ?args]
  have "fails_fast ?fw (main ?fw ?args)"
    by blast
  then obtain cs where cs: "snd (main ?fw ?args []) = [] @ cs"
    and raised: "\<forall>e. cs \<noteq> [] \<and> ?fw (last cs) = Some e \<longrightarrow> fst (main ?fw ?args []) = Inl e"
    unfolding fails_fast_def by blast
  from cs s have "cs = [?c]" by simp
  with raised have "fst (main ?fw ?args []) = Inl (Other ''ValueError'' ''model_dir'')"
    by simp
  with s show ?thesis
    by (simp add: prod_eq_iff)
qed

end
